theory Spec2Isabelle
  imports Complex_Main
begin

section \<open>Values, exceptions and the wrapped client\<close>

text \<open>
  The program is one Python file, \<^verbatim>\<open>main.py\<close>: a class \<^verbatim>\<open>CCXTEndpointTester\<close> and the
  function \<^verbatim>\<open>main\<close>. The exchange library it wraps is a black box; what the program reads
  from it (the capability dictionary \<^verbatim>\<open>has\<close>, a few attributes, the parameter names of a
  method and the outcome of calling it) is data of the model.

  Python values that reach the program's own branches or its JSON documents.
  A dictionary is an association list in insertion order; its keys are distinct.
\<close>

datatype pyval =
    PNone
  | PBool bool
  | PInt int
  | PFloat rat
  | PStr string
  | PList "pyval list"
  | PDict "(string \<times> pyval) list"

type_synonym pydict = "(string \<times> pyval) list"

text \<open>
  Exceptions. \<^verbatim>\<open>except Exception\<close> catches instances of \<^verbatim>\<open>Exception\<close> only:
  \<^verbatim>\<open>KeyboardInterrupt\<close> and \<^verbatim>\<open>SystemExit\<close> derive from \<^verbatim>\<open>BaseException\<close> and pass through it.
  \<open>Error msg\<close> stands for any other exception, with \<^verbatim>\<open>str(e)\<close> as its message.
\<close>

datatype exn = KeyboardInterrupt | SystemExit | EOFError | Error string

fun is_Exception :: "exn \<Rightarrow> bool" where
  "is_Exception KeyboardInterrupt = False"
| "is_Exception SystemExit = False"
| "is_Exception EOFError = True"
| "is_Exception (Error msg) = True"

fun str_exn :: "exn \<Rightarrow> string" where
  "str_exn KeyboardInterrupt = ''''"
| "str_exn SystemExit = ''''"
| "str_exn EOFError = ''''"
| "str_exn (Error msg) = msg"

text \<open>
  A prompt (\<^verbatim>\<open>Prompt.ask\<close>, \<^verbatim>\<open>Confirm.ask\<close>) either returns the operator's answer or raises:
  \<^verbatim>\<open>KeyboardInterrupt\<close> on Ctrl-C, \<^verbatim>\<open>EOFError\<close> at the end of the input.
\<close>

datatype 'a prompt = Answer 'a | Raised exn

text \<open>
  A method of the client: the parameter names \<^verbatim>\<open>inspect.signature\<close> reports, and what a call
  with positional and keyword arguments does (it returns a value or raises).
\<close>

record endpoint_method =
  parameters :: "string list"
  invoke :: "pyval list \<Rightarrow> pydict \<Rightarrow> exn + pyval"

text \<open>
  The client object. An attribute that the object may lack is an option (\<open>None\<close>: no such
  attribute, so \<^verbatim>\<open>hasattr\<close> is false and \<^verbatim>\<open>getattr\<close> takes its default).
  \<open>markets\<close> holds the keys of the \<^verbatim>\<open>markets\<close> dictionary, \<open>None\<close> while it is not loaded;
  \<open>load_markets\<close> is what a call of that method does (the markets it loads, or the
  exception); \<open>dir_names\<close> are the names \<^verbatim>\<open>dir\<close> lists and \<open>getattr_method\<close> gives the callable
  behind a name.
\<close>

record client =
  has :: "pydict option"
  version :: "pyval option"
  rateLimit :: "pyval option"
  apiKey :: "pyval option"
  secret :: "pyval option"
  markets :: "string list option"
  load_markets :: "(exn + string list) option"
  dir_names :: "string list"
  getattr_method :: "string \<Rightarrow> endpoint_method option"

text \<open>
  The library: the registry of exchange identifiers and, for an identifier, the class
  \<^verbatim>\<open>getattr(ccxt, name)\<close> (absent: \<^verbatim>\<open>AttributeError\<close>) whose constructor takes the
  configuration dictionary and returns a client or raises.
\<close>

record ccxt =
  exchanges :: "string list"
  exchange_class :: "string \<Rightarrow> (pydict \<Rightarrow> exn + client) option"

section \<open>The tester and its surroundings\<close>

text \<open>
  The fields of \<^verbatim>\<open>CCXTEndpointTester\<close> (\<open>p_api_key\<close> and \<open>p_secret\<close> are \<^verbatim>\<open>_api_key\<close> and
  \<^verbatim>\<open>_secret\<close>), together with what the program acts on: the store of client objects
  (\<open>exchange_instance\<close> is a reference into it, so that an object can be read after the
  tester has dropped it), the lines printed to the console and the files written under
  \<^verbatim>\<open>responses/\<close>. Tables and panels are not part of the console of the model; the status
  and error lines are.
\<close>

record session =
  exchange :: "string option"
  exchange_instance :: "nat option"
  p_api_key :: "string option"
  p_secret :: "string option"
  heap :: "client list"
  console :: "string list"
  files :: "(string \<times> pyval) list"

definition init :: session where
  "init = \<lparr>exchange = None, exchange_instance = None, p_api_key = None, p_secret = None,
           heap = [], console = [], files = []\<rparr>"

definition deref :: "client list \<Rightarrow> nat \<Rightarrow> client option" where
  "deref h a = (if a < length h then Some (h ! a) else None)"

text \<open>The client object the tester holds, if any (references are made by allocation only).\<close>

definition the_instance :: "session \<Rightarrow> client option" where
  "the_instance s = (case exchange_instance s of None \<Rightarrow> None | Some a \<Rightarrow> deref (heap s) a)"

definition print :: "string \<Rightarrow> session \<Rightarrow> session" where
  "print line s = s\<lparr>console := console s @ [line]\<rparr>"

text \<open>\<^verbatim>\<open>getattr(self.exchange_instance, "has", {})\<close>\<close>

definition getattr_has :: "client \<Rightarrow> pydict" where
  "getattr_has c = (case has c of None \<Rightarrow> [] | Some h \<Rightarrow> h)"

section \<open>Capability classification\<close>

definition categories :: "(string \<times> string list) list" where
  "categories =
    [(''Market Data'',
        [''fetchMarkets'', ''fetchCurrencies'', ''fetchTicker'', ''fetchTickers'',
         ''fetchOrderBook'', ''fetchOHLCV'', ''fetchTrades'', ''fetchStatus'']),
     (''Trading'',
        [''createOrder'', ''cancelOrder'', ''cancelAllOrders'', ''editOrder'',
         ''fetchOrder'', ''fetchOrders'', ''fetchOpenOrders'', ''fetchClosedOrders'']),
     (''Account'',
        [''fetchBalance'', ''fetchMyTrades'', ''fetchLedger'', ''fetchTransactions'',
         ''fetchDeposits'', ''fetchWithdrawals'', ''fetchDepositAddress'']),
     (''Advanced'',
        [''fetchPositions'', ''fetchFundingRate'', ''fetchFundingHistory'',
         ''fetchBorrowRate'', ''fetchTradingFee'', ''fetchTradingFees'']),
     (''WebSocket'',
        [''ws'', ''watchTicker'', ''watchTickers'', ''watchOrderBook'', ''watchTrades'',
         ''watchOHLCV'', ''watchBalance'', ''watchOrders''])]"

text \<open>The fixed set of checked method names.\<close>

definition checked_endpoints :: "string list" where
  "checked_endpoints = concat (map snd categories)"

text \<open>
  The inner loop of \<^verbatim>\<open>check_supported_endpoints\<close>: each endpoint of a category is appended
  to one of the three lists of that category. \<^verbatim>\<open>value is True\<close> holds of the boolean
  \<^verbatim>\<open>True\<close> alone, \<^verbatim>\<open>value == "emulated"\<close> of that string alone.
\<close>

fun bucket_endpoints ::
  "pydict \<Rightarrow> string list \<Rightarrow> string list \<times> string list \<times> string list
     \<Rightarrow> string list \<times> string list \<times> string list" where
  "bucket_endpoints has_dict [] acc = acc"
| "bucket_endpoints has_dict (endpoint # rest) (sl, el, nl) =
     bucket_endpoints has_dict rest
       (case map_of has_dict endpoint of
          Some v \<Rightarrow>
            if v = PBool True then (sl @ [endpoint], el, nl)
            else if v = PStr ''emulated'' then (sl, el @ [endpoint], nl)
            else (sl, el, nl @ [endpoint])
        | None \<Rightarrow> (sl, el, nl @ [endpoint]))"

text \<open>
  The three dictionaries \<^verbatim>\<open>supported\<close>, \<^verbatim>\<open>emulated\<close> and \<^verbatim>\<open>not_supported\<close>: category
  name to list of endpoints, in the order of the categories (whose names are distinct, so
  each assignment \<^verbatim>\<open>supported[category] = []\<close> adds a key at the end).
\<close>

type_synonym buckets = "(string \<times> string list) list"

fun bucket_categories ::
  "pydict \<Rightarrow> (string \<times> string list) list \<Rightarrow> buckets \<times> buckets \<times> buckets
     \<Rightarrow> buckets \<times> buckets \<times> buckets" where
  "bucket_categories has_dict [] acc = acc"
| "bucket_categories has_dict ((category, endpoints) # rest) (supported, emulated, not_supported) =
     (case bucket_endpoints has_dict endpoints ([], [], []) of
        (sl, el, nl) \<Rightarrow>
          bucket_categories has_dict rest
            (supported @ [(category, sl)], emulated @ [(category, el)],
             not_supported @ [(category, nl)]))"

section \<open>Persisted documents\<close>

text \<open>
  What a save reads from its surroundings: the two readings of \<^verbatim>\<open>datetime.now()\<close>, already
  formatted, and the error that \<^verbatim>\<open>os.makedirs\<close> or \<^verbatim>\<open>open\<close> raises, if any.
\<close>

record env =
  strftime_now :: string
  isoformat_now :: string
  io_error :: "string option"

text \<open>\<^verbatim>\<open>self.exchange\<close> inside an f-string, and as a JSON value.\<close>

definition fmt_exchange :: "session \<Rightarrow> string" where
  "fmt_exchange s = (case exchange s of None \<Rightarrow> ''None'' | Some name \<Rightarrow> name)"

definition json_exchange :: "session \<Rightarrow> pyval" where
  "json_exchange s = (case exchange s of None \<Rightarrow> PNone | Some name \<Rightarrow> PStr name)"

definition json_buckets :: "buckets \<Rightarrow> pyval" where
  "json_buckets d = PDict (map (\<lambda>(category, endpoints). (category, PList (map PStr endpoints))) d)"

text \<open>
  A percentage with one decimal, in tenths of a percent: \<^verbatim>\<open>round((n / d) * 100, 1)\<close> and
  the format \<^verbatim>\<open>.1f\<close> both round to the nearest tenth, ties to the even one. The model
  rounds the exact quotient; the source rounds a double, which differs from it only
  within a few units in the last place of the double.
\<close>

definition pct_tenths :: "nat \<Rightarrow> nat \<Rightarrow> nat" where
  "pct_tenths n d =
     (let q = (1000 * n) div d; r = (1000 * n) mod d
      in if 2 * r < d then q else if d < 2 * r then q + 1 else if even q then q else q + 1)"

definition json_percentage :: "nat \<Rightarrow> nat \<Rightarrow> pyval" where
  "json_percentage n tc =
     (if tc > 0 then PFloat (of_nat (pct_tenths n tc) / 10) else PInt 0)"

text \<open>\<^verbatim>\<open>sum(len(endpoints) for endpoints in d.values())\<close>\<close>

definition total_of :: "buckets \<Rightarrow> nat" where
  "total_of d = sum_list (map (\<lambda>(category, endpoints). length endpoints) d)"

text \<open>All endpoints of a dictionary of lists, over its categories.\<close>

definition values_of :: "buckets \<Rightarrow> string list" where
  "values_of d = concat (map snd d)"

text \<open>The dictionary \<^verbatim>\<open>summary\<close> of \<^verbatim>\<open>_save_capability_info_to_file\<close>.\<close>

definition capability_summary :: "buckets \<Rightarrow> buckets \<Rightarrow> buckets \<Rightarrow> pydict" where
  "capability_summary sd ed nd =
     (let total_supported = total_of sd;
          total_emulated = total_of ed;
          total_not_supported = total_of nd;
          tc = total_supported + total_emulated + total_not_supported
      in [(''total_checked'', PInt (int tc)),
          (''supported'', PInt (int total_supported)),
          (''emulated'', PInt (int total_emulated)),
          (''not_supported'', PInt (int total_not_supported)),
          (''support_percentage'', json_percentage total_supported tc),
          (''emulated_percentage'', json_percentage total_emulated tc)])"

definition getattr_version :: "session \<Rightarrow> pyval" where
  "getattr_version s =
     (case the_instance s of None \<Rightarrow> PStr ''Unknown''
      | Some c \<Rightarrow> (case version c of None \<Rightarrow> PStr ''Unknown'' | Some v \<Rightarrow> v))"

definition getattr_rateLimit :: "session \<Rightarrow> pyval" where
  "getattr_rateLimit s =
     (case the_instance s of None \<Rightarrow> PStr ''Unknown''
      | Some c \<Rightarrow> (case rateLimit c of None \<Rightarrow> PStr ''Unknown'' | Some v \<Rightarrow> v))"

definition capability_document ::
  "env \<Rightarrow> pydict \<Rightarrow> buckets \<Rightarrow> buckets \<Rightarrow> buckets \<Rightarrow> session \<Rightarrow> pyval" where
  "capability_document e has_dict sd ed nd s =
     PDict
      [(''metadata'', PDict
          [(''timestamp'', PStr (isoformat_now e)),
           (''exchange'', json_exchange s),
           (''description'', PStr ''Endpoint capability and support information''),
           (''api_version'', getattr_version s),
           (''rate_limit'', getattr_rateLimit s),
           (''summary'', PDict (capability_summary sd ed nd))]),
       (''raw_has_dictionary'', PDict has_dict),
       (''categorized_endpoints'', PDict
          [(''supported'', json_buckets sd),
           (''emulated'', json_buckets ed),
           (''not_supported'', json_buckets nd)])]"

text \<open>
  \<^verbatim>\<open>_save_capability_info_to_file\<close>. Its whole body is inside \<^verbatim>\<open>try\<close>: an error of the
  file system is printed and nothing is written. The document is the value handed to
  \<^verbatim>\<open>json.dump\<close>, whose text is a function of that value.
\<close>

definition save_capability_info_to_file ::
  "env \<Rightarrow> pydict \<Rightarrow> buckets \<Rightarrow> buckets \<Rightarrow> buckets \<Rightarrow> session \<Rightarrow> session" where
  "save_capability_info_to_file e has_dict sd ed nd s =
     (case io_error e of
        Some msg \<Rightarrow>
          print ''[yellow]Capability info was not saved[/yellow]''
            (print (''[red]Error saving capability info to file: '' @ msg @ ''[/red]'') s)
      | None \<Rightarrow>
          (let filepath = ''responses/ccxt_capabilities_'' @ fmt_exchange s @ ''_''
                 @ strftime_now e @ ''.json'';
               data_to_save = capability_document e has_dict sd ed nd s
           in print (''[green]Capability info saved to: '' @ filepath @ ''[/green]'')
                (s\<lparr>files := files s @ [(filepath, data_to_save)]\<rparr>)))"

definition endpoints_document :: "env \<Rightarrow> buckets \<Rightarrow> session \<Rightarrow> pyval" where
  "endpoints_document e endpoints s =
     PDict
      [(''metadata'', PDict
          [(''timestamp'', PStr (isoformat_now e)),
           (''exchange'', json_exchange s),
           (''description'', PStr ''Available endpoints information''),
           (''total_endpoints'', PInt (int (total_of endpoints)))]),
       (''endpoints'', json_buckets endpoints)]"

text \<open>\<^verbatim>\<open>_save_endpoints_info_to_file\<close>\<close>

definition save_endpoints_info_to_file :: "env \<Rightarrow> buckets \<Rightarrow> session \<Rightarrow> session" where
  "save_endpoints_info_to_file e endpoints s =
     (case io_error e of
        Some msg \<Rightarrow>
          print ''[yellow]Endpoints info was not saved[/yellow]''
            (print (''[red]Error saving endpoints info to file: '' @ msg @ ''[/red]'') s)
      | None \<Rightarrow>
          (let filepath = ''responses/ccxt_endpoints_'' @ fmt_exchange s @ ''_''
                 @ strftime_now e @ ''.json'';
               data_to_save = endpoints_document e endpoints s
           in print (''[green]Endpoints info saved to: '' @ filepath @ ''[/green]'')
                (s\<lparr>files := files s @ [(filepath, data_to_save)]\<rparr>)))"

text \<open>\<^verbatim>\<open>endpoint.replace("/", "_").replace("\\", "_")\<close>\<close>

definition safe_endpoint :: "string \<Rightarrow> string" where
  "safe_endpoint endpoint =
     map (\<lambda>c. if c = CHR ''/'' \<or> c = CHR 0x5C then CHR ''_'' else c) endpoint"

definition response_document :: "env \<Rightarrow> string \<Rightarrow> pyval \<Rightarrow> pydict \<Rightarrow> session \<Rightarrow> pyval" where
  "response_document e endpoint response_data request_info s =
     PDict
      [(''metadata'', PDict
          [(''timestamp'', PStr (isoformat_now e)),
           (''exchange'', json_exchange s),
           (''endpoint'', PStr endpoint),
           (''request_info'', PDict request_info)]),
       (''response'', response_data)]"

text \<open>\<^verbatim>\<open>_save_response_to_file\<close>\<close>

definition save_response_to_file ::
  "env \<Rightarrow> string \<Rightarrow> pyval \<Rightarrow> pydict \<Rightarrow> session \<Rightarrow> session" where
  "save_response_to_file e endpoint response_data request_info s =
     (case io_error e of
        Some msg \<Rightarrow>
          print ''[yellow]Response data was not saved[/yellow]''
            (print (''[red]Error saving response to file: '' @ msg @ ''[/red]'') s)
      | None \<Rightarrow>
          (let filepath = ''responses/ccxt_response_'' @ fmt_exchange s @ ''_''
                 @ safe_endpoint endpoint @ ''_'' @ strftime_now e @ ''.json'';
               data_to_save = response_document e endpoint response_data request_info s
           in print (''[green]Response saved to: '' @ filepath @ ''[/green]'')
                (s\<lparr>files := files s @ [(filepath, data_to_save)]\<rparr>)))"

section \<open>Checking the supported endpoints\<close>

text \<open>
  The rows of the summary table: label, count and percentage (in tenths of a percent);
  there are none when nothing was checked.
\<close>

definition summary_rows :: "nat \<Rightarrow> nat \<Rightarrow> nat \<Rightarrow> (string \<times> nat \<times> nat) list" where
  "summary_rows total_supported total_emulated total_not_supported =
     (let tc = total_supported + total_emulated + total_not_supported
      in if tc > 0 then
           [(''[green]Fully Supported[/green]'', total_supported,
               pct_tenths total_supported tc),
            (''[yellow]Emulated[/yellow]'', total_emulated,
               pct_tenths total_emulated tc),
            (''[red]Not Supported[/red]'', total_not_supported,
               pct_tenths total_not_supported tc)]
         else [])"

text \<open>
  What \<^verbatim>\<open>check_supported_endpoints\<close> builds and shows: the three dictionaries, the total
  and the summary table.
\<close>

record report =
  supported :: buckets
  emulated :: buckets
  not_supported :: buckets
  total_checked :: nat
  summary_table :: "(string \<times> nat \<times> nat) list"

text \<open>
  \<^verbatim>\<open>check_supported_endpoints\<close>. The result has the exception that leaves the function (only
  the last prompt can raise), the report (\<open>None\<close> where the function returns before it
  classifies anything) and the session afterwards.
\<close>

definition check_supported_endpoints ::
  "env \<Rightarrow> bool prompt \<Rightarrow> session \<Rightarrow> exn option \<times> report option \<times> session" where
  "check_supported_endpoints e save_answer s =
     (case the_instance s of
        None \<Rightarrow> (None, None, print ''[red]No exchange instance available[/red]'' s)
      | Some c \<Rightarrow>
          (let s1 = print (''[bold cyan]Checking supported endpoints for '' @ fmt_exchange s
                            @ ''[/bold cyan]'') s;
               has_dict = getattr_has c
           in if has_dict = [] then
                (None, None,
                 print (''[yellow]Exchange doesn'' @ [CHR 0x27]
                          @ ''t provide capability information[/yellow]'') s1)
              else
                (case bucket_categories has_dict categories ([], [], []) of
                   (sd, ed, nd) \<Rightarrow>
                     (let total_supported = total_of sd;
                          total_emulated = total_of ed;
                          total_not_supported = total_of nd;
                          rep = \<lparr>supported = sd, emulated = ed, not_supported = nd,
                                 total_checked =
                                   total_supported + total_emulated + total_not_supported,
                                 summary_table =
                                   summary_rows total_supported total_emulated total_not_supported\<rparr>
                      in (case save_answer of
                            Raised x \<Rightarrow> (Some x, Some rep, s1)
                          | Answer yes \<Rightarrow>
                              (None, Some rep,
                               if yes then save_capability_info_to_file e has_dict sd ed nd s1
                               else s1))))))"

text \<open>
  \<^verbatim>\<open>_get_endpoint_support_status\<close>: the markup of the glyph shown beside an endpoint in the
  selector. The glyphs themselves are written by their code points.
\<close>

definition get_endpoint_support_status :: "session \<Rightarrow> string \<Rightarrow> string" where
  "get_endpoint_support_status s endpoint =
     (case the_instance s of
        None \<Rightarrow> ''''
      | Some c \<Rightarrow>
          (case map_of (getattr_has c) endpoint of
             Some v \<Rightarrow>
               if v = PBool True then ''[green]U+2713[/green]''
               else if v = PStr ''emulated'' then ''[yellow]U+26A1[/yellow]''
               else ''[red]U+2717[/red]''
           | None \<Rightarrow> ''[dim]?[/dim]''))"

section \<open>Strings and coercions\<close>

text \<open>
  A \<open>char\<close> is one of 256 code points, so the strings of the model are Python strings over
  Latin-1. \<^verbatim>\<open>str.lower\<close> maps \<^verbatim>\<open>A\<close> to \<^verbatim>\<open>Z\<close> and the upper-case letters of Latin-1 (192 to
  222 without the multiplication sign 215) to the letter 32 places on.
\<close>

definition lower_char :: "char \<Rightarrow> char" where
  "lower_char c =
     (let n = (of_char c :: nat)
      in if (65 \<le> n \<and> n \<le> 90) \<or> (192 \<le> n \<and> n \<le> 222 \<and> n \<noteq> 215) then char_of (n + 32)
         else c)"

definition lower :: "string \<Rightarrow> string" where
  "lower s = map lower_char s"

text \<open>Python's white space among these code points, which \<^verbatim>\<open>strip\<close> removes.\<close>

definition is_space :: "char \<Rightarrow> bool" where
  "is_space c =
     (let n = (of_char c :: nat)
      in (9 \<le> n \<and> n \<le> 13) \<or> (28 \<le> n \<and> n \<le> 32) \<or> n = 133 \<or> n = 160)"

definition strip :: "string \<Rightarrow> string" where
  "strip s = rev (dropWhile is_space (rev (dropWhile is_space s)))"

definition is_digit :: "char \<Rightarrow> bool" where
  "is_digit c = (let n = (of_char c :: nat) in 48 \<le> n \<and> n \<le> 57)"

definition digit_value :: "char \<Rightarrow> nat" where
  "digit_value c = of_char c - 48"

text \<open>
  \<^verbatim>\<open>int(value)\<close> on a string: white space around, an optional sign, then decimal digits,
  where one underscore may stand between two digits. \<open>None\<close> is \<^verbatim>\<open>ValueError\<close>. The white
  space that \<^verbatim>\<open>int\<close> skips is that of \<^verbatim>\<open>strip\<close> without the four separators 28 to 31. A
  text of more than \<^verbatim>\<open>sys.int_info.default_max_str_digits\<close> digits (4300, the limit of the
  interpreter as it is started by default) is a \<^verbatim>\<open>ValueError\<close> too; underscores and the
  sign do not count.
\<close>

definition is_int_space :: "char \<Rightarrow> bool" where
  "is_int_space c =
     (let n = (of_char c :: nat)
      in (9 \<le> n \<and> n \<le> 13) \<or> n = 32 \<or> n = 133 \<or> n = 160)"

definition max_str_digits :: nat where
  "max_str_digits = 4300"

fun digits_from :: "nat \<Rightarrow> string \<Rightarrow> nat option" where
  "digits_from n [] = Some n"
| "digits_from n [c] = (if is_digit c then Some (10 * n + digit_value c) else None)"
| "digits_from n (c # d # cs) =
     (if is_digit c then digits_from (10 * n + digit_value c) (d # cs)
      else if c = CHR ''_'' \<and> is_digit d then digits_from (10 * n + digit_value d) cs
      else None)"

definition digits :: "string \<Rightarrow> nat option" where
  "digits s =
     (case s of [] \<Rightarrow> None
      | c # cs \<Rightarrow>
          if is_digit c \<and> length (filter is_digit s) \<le> max_str_digits
          then digits_from (digit_value c) cs else None)"

definition py_int :: "string \<Rightarrow> int option" where
  "py_int s =
     (case rev (dropWhile is_int_space (rev (dropWhile is_int_space s))) of
        [] \<Rightarrow> None
      | c # cs \<Rightarrow>
          if c = CHR ''-'' then map_option (\<lambda>n. - int n) (digits cs)
          else if c = CHR ''+'' then map_option int (digits cs)
          else map_option int (digits (c # cs)))"

text \<open>\<^verbatim>\<open>int(x)\<close> on a float: truncation towards zero.\<close>

definition py_trunc :: "rat \<Rightarrow> int" where
  "py_trunc x = (if 0 \<le> x then \<lfloor>x\<rfloor> else \<lceil>x\<rceil>)"

text \<open>
  \<^verbatim>\<open>Prompt.ask(text, default=d)\<close> on the line the operator entered: the default when the
  line is empty, and else the line without the white space around it (the prompt of the
  library passes every line that is not empty through \<^verbatim>\<open>strip\<close>, so a line of white space
  only gives the empty string and not the default).
\<close>

definition Prompt_ask :: "string \<Rightarrow> string \<Rightarrow> string" where
  "Prompt_ask dflt entered = (if entered = [] then dflt else strip entered)"

text \<open>
  The value that \<^verbatim>\<open>test_endpoint\<close> gives to one parameter, from the line entered for it.
  \<open>clock\<close> is the reading of \<^verbatim>\<open>time.time()\<close> in seconds; the source has a double where the
  model has the exact number. For \<^verbatim>\<open>symbol\<close> the default is the first market, or
  \<^verbatim>\<open>BTC/IDR\<close> when there is none or when reading the markets raises.
\<close>

definition param_value :: "client \<Rightarrow> rat \<Rightarrow> string \<Rightarrow> string \<Rightarrow> pyval" where
  "param_value c clock param entered =
     (if param = ''symbol'' then
        PStr (Prompt_ask (case markets c of Some (m # ms) \<Rightarrow> m | _ \<Rightarrow> ''BTC/IDR'') entered)
      else if param = ''limit'' then
        (let v = Prompt_ask ''10'' entered
         in case py_int v of Some n \<Rightarrow> PInt n | None \<Rightarrow> PStr v)
      else if param = ''since'' then
        (let v = Prompt_ask ''now'' entered
         in if lower v = ''now'' then PInt (py_trunc (clock * 1000))
            else (case py_int v of Some n \<Rightarrow> PInt n | None \<Rightarrow> PStr v))
      else
        (let v = Prompt_ask [] entered
         in if lower v = ''none'' then PNone
            else if lower v = ''true'' then PBool True
            else if lower v = ''false'' then PBool False
            else PStr v))"

text \<open>\<^verbatim>\<open>kwargs[param] = value\<close>: a key keeps its place, a new key goes to the end.\<close>

fun dict_set :: "pydict \<Rightarrow> string \<Rightarrow> pyval \<Rightarrow> pydict" where
  "dict_set [] k v = [(k, v)]"
| "dict_set ((k', v') # d) k v = (if k' = k then (k, v) # d else (k', v') # dict_set d k v)"

text \<open>
  The loop over the parameters, in the order of the signature: \<^verbatim>\<open>symbol\<close>, \<^verbatim>\<open>limit\<close> and
  \<^verbatim>\<open>since\<close> are appended to \<^verbatim>\<open>args\<close>, every other parameter is stored in \<^verbatim>\<open>kwargs\<close>.
\<close>

fun collect_params ::
  "(string \<Rightarrow> pyval) \<Rightarrow> string list \<Rightarrow> pyval list \<times> pydict \<Rightarrow> pyval list \<times> pydict" where
  "collect_params value_of [] acc = acc"
| "collect_params value_of (param # rest) (args, kwargs) =
     collect_params value_of rest
       (if param \<in> set [''symbol'', ''limit'', ''since''] then (args @ [value_of param], kwargs)
        else (args, dict_set kwargs param (value_of param)))"

section \<open>Invoking an endpoint\<close>

text \<open>
  \<^verbatim>\<open>str\<close> and \<^verbatim>\<open>repr\<close> of the values that a prompt can produce (a string's \<^verbatim>\<open>repr\<close> is
  written without escapes); other values do not occur among the arguments.
\<close>

fun str_nat :: "nat \<Rightarrow> string" where
  "str_nat n = (if n < 10 then [char_of (48 + n)] else str_nat (n div 10) @ [char_of (48 + n mod 10)])"

declare str_nat.simps [simp del]

definition str_int :: "int \<Rightarrow> string" where
  "str_int i = (if i < 0 then CHR ''-'' # str_nat (nat (- i)) else str_nat (nat i))"

fun py_str :: "pyval \<Rightarrow> string" where
  "py_str PNone = ''None''"
| "py_str (PBool b) = (if b then ''True'' else ''False'')"
| "py_str (PInt i) = str_int i"
| "py_str (PStr s) = s"
| "py_str v = ''...''"

fun py_repr :: "pyval \<Rightarrow> string" where
  "py_repr (PStr s) = [CHR 0x27] @ s @ [CHR 0x27]"
| "py_repr v = py_str v"

fun join :: "string \<Rightarrow> string list \<Rightarrow> string" where
  "join sep [] = []"
| "join sep [x] = x"
| "join sep (x # y # xs) = x @ sep @ join sep (y # xs)"

definition repr_dict :: "pydict \<Rightarrow> string" where
  "repr_dict d = ''{'' @ join '', '' (map (\<lambda>(k, v). py_repr (PStr k) @ '': '' @ py_repr v) d) @ ''}''"

text \<open>\<^verbatim>\<open>f"{endpoint}({', '.join(map(str, args))}, {kwargs})"\<close>\<close>

definition call_text :: "string \<Rightarrow> pyval list \<Rightarrow> pydict \<Rightarrow> string" where
  "call_text endpoint args kwargs =
     endpoint @ ''('' @ join '', '' (map py_str args) @ '', '' @ repr_dict kwargs @ '')''"

text \<open>The dictionary \<^verbatim>\<open>request_info\<close>.\<close>

definition request_info_of :: "session \<Rightarrow> string \<Rightarrow> pyval list \<Rightarrow> pydict \<Rightarrow> pydict" where
  "request_info_of s endpoint args kwargs =
     [(''Exchange'', json_exchange s),
      (''Endpoint'', PStr endpoint),
      (''Arguments'', PList args),
      (''Keyword Arguments'', PDict kwargs),
      (''Method'', PStr (call_text endpoint args kwargs))]"

text \<open>
  What one run of \<^verbatim>\<open>test_endpoint\<close> takes from outside: the text entered for each parameter
  (these prompts are taken as answered), the clock, the answers to the two confirmations,
  each of which may raise instead, and the surroundings of a save.
\<close>

record test_input =
  entered :: "string \<Rightarrow> string"
  clock_now :: rat
  save_answer :: "bool prompt"
  traceback_answer :: "bool prompt"
  save_env :: env

text \<open>
  The body of the \<^verbatim>\<open>try\<close> of \<^verbatim>\<open>test_endpoint\<close>, from the call on: \<open>outcome\<close> is what
  \<^verbatim>\<open>method(*args, **kwargs)\<close> does. The result is the exception raised in the body, if any,
  and the session.
\<close>

definition try_call ::
  "test_input \<Rightarrow> string \<Rightarrow> pyval list \<Rightarrow> pydict \<Rightarrow> exn + pyval \<Rightarrow> session
     \<Rightarrow> exn option \<times> session" where
  "try_call inp endpoint args kwargs outcome s =
     (let s1 = print (''[bold]Executing: '' @ call_text endpoint args kwargs @ ''[/bold]'') s
      in case outcome of
           Inl x \<Rightarrow> (Some x, s1)
         | Inr result \<Rightarrow>
             (let request_info = request_info_of s1 endpoint args kwargs;
                  s2 = print ''[bold green]Response:[/bold green]'' s1
              in if result = PNone then (None, print ''[yellow]No response data[/yellow]'' s2)
                 else (case save_answer inp of
                         Raised x \<Rightarrow> (Some x, s2)
                       | Answer yes \<Rightarrow>
                           (None,
                            if yes then
                              save_response_to_file (save_env inp) endpoint result request_info s2
                            else s2))))"

text \<open>
  The handler \<^verbatim>\<open>except Exception as e\<close> of \<^verbatim>\<open>test_endpoint\<close>: an exception that is not an
  \<^verbatim>\<open>Exception\<close> passes through; one raised by the prompt inside the handler leaves the
  function.
\<close>

definition except_Exception ::
  "test_input \<Rightarrow> string \<Rightarrow> exn option \<times> session \<Rightarrow> exn option \<times> session" where
  "except_Exception inp endpoint r =
     (case r of
        (None, s) \<Rightarrow> (None, s)
      | (Some x, s) \<Rightarrow>
          if is_Exception x then
            (let s1 = print (''[red]'' @ str_exn x @ ''[/red]'')
                        (print (''[red]Error executing '' @ endpoint @ '':[/red]'') s)
             in case traceback_answer inp of
                  Raised y \<Rightarrow> (Some y, s1)
                | Answer yes \<Rightarrow> (None, if yes then print ''Traceback (most recent call last):'' s1 else s1))
          else (Some x, s))"

text \<open>
  \<^verbatim>\<open>test_endpoint\<close>. \<^verbatim>\<open>getattr\<close> raises \<^verbatim>\<open>AttributeError\<close>, outside the \<^verbatim>\<open>try\<close>, when the client
  has no such method; \<^verbatim>\<open>params.remove("self")\<close> takes the first occurrence away.
\<close>

definition test_endpoint :: "test_input \<Rightarrow> string \<Rightarrow> session \<Rightarrow> exn option \<times> session" where
  "test_endpoint inp endpoint s =
     (case the_instance s of
        None \<Rightarrow> (None, print ''[red]No exchange instance available[/red]'' s)
      | Some c \<Rightarrow>
          (case getattr_method c endpoint of
             None \<Rightarrow> (Some (Error (''AttributeError: '' @ endpoint)), s)
           | Some m \<Rightarrow>
               (let params = remove1 ''self'' (parameters m);
                    s1 = print (''[bold cyan]Testing endpoint: '' @ endpoint @ ''[/bold cyan]'') s
                in case collect_params (\<lambda>param. param_value c (clock_now inp) param (entered inp param))
                          params ([], []) of
                     (args, kwargs) \<Rightarrow>
                       except_Exception inp endpoint
                         (try_call inp endpoint args kwargs (invoke m args kwargs) s1))))"

section \<open>Listing the endpoints\<close>

definition starts_with :: "string \<Rightarrow> string \<Rightarrow> bool" where
  "starts_with s p = (take (length p) s = p)"

text \<open>\<^verbatim>\<open>sub in s\<close>\<close>

fun contains :: "string \<Rightarrow> string \<Rightarrow> bool" where
  "contains [] sub = (sub = [])"
| "contains (c # cs) sub = (starts_with (c # cs) sub \<or> contains cs sub)"

definition category_of :: "string \<Rightarrow> string" where
  "category_of method =
     (if method \<in> set [''fetch_ticker'', ''fetch_tickers'', ''fetch_order_book'', ''fetch_ohlcv'']
        then ''Market Data''
      else if starts_with method ''fetch_'' \<and> contains method ''order'' then ''Trading''
      else if starts_with method ''fetch_'' \<and> contains method ''balance'' then ''Account''
      else if starts_with method ''fetch_'' then ''Public''
      else ''Other'')"

definition append_to :: "buckets \<Rightarrow> string \<Rightarrow> string \<Rightarrow> buckets" where
  "append_to endpoints category method =
     map (\<lambda>(c, ms). if c = category then (c, ms @ [method]) else (c, ms)) endpoints"

text \<open>
  \<^verbatim>\<open>get_available_endpoints\<close>: the public callable names of the client, by category.
\<close>

definition get_available_endpoints :: "session \<Rightarrow> buckets" where
  "get_available_endpoints s =
     (case the_instance s of
        None \<Rightarrow> []
      | Some c \<Rightarrow>
          (let methods =
                 filter (\<lambda>method. \<not> starts_with method ''_'' \<and> getattr_method c method \<noteq> None)
                   (dir_names c)
           in fold (\<lambda>method endpoints. append_to endpoints (category_of method) method) methods
                [(''Public'', []), (''Market Data'', []), (''Trading'', []), (''Account'', []),
                 (''Other'', [])]))"

text \<open>\<^verbatim>\<open>display_endpoints\<close>, without its tables: the offer to save the listing.\<close>

definition display_endpoints :: "env \<Rightarrow> bool prompt \<Rightarrow> session \<Rightarrow> exn option \<times> session" where
  "display_endpoints e answer s =
     (let endpoints = get_available_endpoints s
      in if endpoints \<noteq> [] then
           (case answer of
              Raised x \<Rightarrow> (Some x, s)
            | Answer yes \<Rightarrow> (None, if yes then save_endpoints_info_to_file e endpoints s else s))
         else (None, s))"

section \<open>Setting up and cleaning up\<close>

text \<open>
  \<^verbatim>\<open>select_exchange\<close>: the prompt is repeated until an identifier of the registry is entered.
  The answers are those given to the successive prompts; when they run out the input has
  ended.
\<close>

fun select_exchange :: "ccxt \<Rightarrow> string prompt list \<Rightarrow> exn + string" where
  "select_exchange lib [] = Inl EOFError"
| "select_exchange lib (Raised x # rest) = Inl x"
| "select_exchange lib (Answer a # rest) =
     (let exchange_name = strip (lower (Prompt_ask ''indodax'' a))
      in if exchange_name \<in> set (exchanges lib) then Inr exchange_name
         else select_exchange lib rest)"

definition config_of :: "string \<Rightarrow> string \<Rightarrow> pydict" where
  "config_of api_key secret_key =
     [(''sandbox'', PBool False), (''verbose'', PBool False)]
     @ (if api_key \<noteq> [] then [(''apiKey'', PStr api_key)] else [])
     @ (if secret_key \<noteq> [] then [(''secret'', PStr secret_key)] else [])"

text \<open>
  The body of the \<^verbatim>\<open>try\<close> of \<^verbatim>\<open>setup_exchange\<close>. A new client is allocated at the end of the
  store. An \<^verbatim>\<open>Exception\<close> of \<^verbatim>\<open>load_markets\<close> is caught by the inner handler and is a
  warning only.
\<close>

definition try_setup :: "ccxt \<Rightarrow> string \<Rightarrow> string \<Rightarrow> string \<Rightarrow> session \<Rightarrow> exn option \<times> session" where
  "try_setup lib exchange_name api_key secret_key s =
     (let s1 = s\<lparr>p_api_key := Some api_key, p_secret := Some secret_key\<rparr>
      in case exchange_class lib exchange_name of
           None \<Rightarrow> (Some (Error (''AttributeError: '' @ exchange_name)), s1)
         | Some ctor \<Rightarrow>
             (case ctor (config_of api_key secret_key) of
                Inl x \<Rightarrow> (Some x, s1)
              | Inr c \<Rightarrow>
                  (let a = length (heap s1);
                       s2 = s1\<lparr>heap := heap s1 @ [c], exchange_instance := Some a,
                               exchange := Some exchange_name\<rparr>
                   in case load_markets c of
                        None \<Rightarrow>
                          (None, print (''[green]Successfully initialized '' @ exchange_name
                                          @ ''[/green]'') s2)
                      | Some (Inr ms) \<Rightarrow>
                          (None, print (''[green]Successfully connected to '' @ exchange_name
                                          @ ''[/green]'')
                                   (s2\<lparr>heap := (heap s2)[a := c\<lparr>markets := Some ms\<rparr>]\<rparr>))
                      | Some (Inl x) \<Rightarrow>
                          if is_Exception x then
                            (None,
                             print ''[yellow]Some endpoints might not work without proper authentication[/yellow]''
                               (print (''[yellow]Warning: Could not load markets: '' @ str_exn x
                                         @ ''[/yellow]'') s2))
                          else (Some x, s2))))"

text \<open>
  \<^verbatim>\<open>setup_exchange\<close>: the outer handler prints the error and raises it again.
\<close>

definition setup_exchange :: "ccxt \<Rightarrow> string \<Rightarrow> string \<Rightarrow> string \<Rightarrow> session \<Rightarrow> exn option \<times> session" where
  "setup_exchange lib exchange_name api_key secret_key s =
     (case try_setup lib exchange_name api_key secret_key s of
        (None, s') \<Rightarrow> (None, s')
      | (Some x, s') \<Rightarrow>
          if is_Exception x then
            (Some x, print (''[red]Error setting up exchange: '' @ str_exn x @ ''[/red]'') s')
          else (Some x, s'))"

text \<open>\<^verbatim>\<open>_clear_credentials\<close>: a field that holds a non-empty string is set to \<^verbatim>\<open>None\<close>.\<close>

definition clear_field :: "string option \<Rightarrow> string option" where
  "clear_field v = (case v of None \<Rightarrow> None | Some k \<Rightarrow> if k \<noteq> [] then None else Some k)"

definition clear_credentials :: "session \<Rightarrow> session" where
  "clear_credentials s = s\<lparr>p_api_key := clear_field (p_api_key s), p_secret := clear_field (p_secret s)\<rparr>"

text \<open>The two assignments of \<^verbatim>\<open>cleanup\<close> on the client object, each under its \<^verbatim>\<open>hasattr\<close>.\<close>

definition clear_client :: "client \<Rightarrow> client" where
  "clear_client c =
     c\<lparr>apiKey := (if apiKey c \<noteq> None then Some PNone else None),
       secret := (if secret c \<noteq> None then Some PNone else None)\<rparr>"

text \<open>\<^verbatim>\<open>cleanup\<close>\<close>

definition cleanup :: "session \<Rightarrow> session" where
  "cleanup s =
     (let s1 = clear_credentials s;
          s2 = (case exchange_instance s1 of
                  None \<Rightarrow> s1
                | Some a \<Rightarrow>
                    (case deref (heap s1) a of
                       None \<Rightarrow> s1
                     | Some c \<Rightarrow> s1\<lparr>heap := (heap s1)[a := clear_client c]\<rparr>))
      in s2\<lparr>exchange_instance := None, exchange := None\<rparr>)"

section \<open>The interactive loop\<close>

text \<open>
  Selecting an exchange, asking for the two credentials and setting the exchange up: the
  start of \<^verbatim>\<open>main\<close>, and the rest of its action 4. The answers are the lines entered at
  the two prompts, whose default is the empty string.
\<close>

definition select_and_setup ::
  "ccxt \<Rightarrow> string prompt list \<Rightarrow> string prompt \<Rightarrow> string prompt \<Rightarrow> session
     \<Rightarrow> exn option \<times> session" where
  "select_and_setup lib attempts key_answer secret_answer s =
     (case select_exchange lib attempts of
        Inl x \<Rightarrow> (Some x, s)
      | Inr exchange_name \<Rightarrow>
          (case key_answer of
             Raised x \<Rightarrow> (Some x, s)
           | Answer api_key \<Rightarrow>
               (case secret_answer of
                  Raised x \<Rightarrow> (Some x, s)
                | Answer secret_key \<Rightarrow>
                    setup_exchange lib exchange_name (Prompt_ask [] api_key)
                      (Prompt_ask [] secret_key) s)))"

text \<open>
  One pass of the loop of \<^verbatim>\<open>main\<close>, by the action chosen at the menu, with what the
  operator and the surroundings give to it. \<open>Test\<close> carries the outcome of
  \<^verbatim>\<open>select_endpoint\<close>, which is not modelled further. \<open>Menu_raised\<close> is the menu prompt raising.
\<close>

datatype event =
    View env "bool prompt"
  | Check env "bool prompt"
  | Test "string option prompt" test_input
  | Change "string prompt list" "string prompt" "string prompt"
  | Quit
  | Menu_raised exn

fun action :: "ccxt \<Rightarrow> event \<Rightarrow> session \<Rightarrow> exn option \<times> session" where
  "action lib (View e answer) s = display_endpoints e answer s"
| "action lib (Check e answer) s =
     (case check_supported_endpoints e answer s of (r, rep, s') \<Rightarrow> (r, s'))"
| "action lib (Test selected inp) s =
     (case selected of
        Raised x \<Rightarrow> (Some x, s)
      | Answer None \<Rightarrow> (None, print ''[yellow]Returning to main menu.[/yellow]'' s)
      | Answer (Some endpoint) \<Rightarrow>
          if endpoint \<noteq> [] then test_endpoint inp endpoint s
          else (None, print ''[yellow]Returning to main menu.[/yellow]'' s))"
| "action lib (Change attempts key_answer secret_answer) s =
     select_and_setup lib attempts key_answer secret_answer (cleanup s)"
| "action lib Quit s = (None, print ''[green]Goodbye![/green]'' s)"
| "action lib (Menu_raised x) s = (Some x, s)"

text \<open>
  The \<^verbatim>\<open>while True\<close> loop: it ends by \<^verbatim>\<open>break\<close> at action 5 (\<open>None\<close>) or by an exception.
  When the events run out the input has ended and the menu prompt raises \<^verbatim>\<open>EOFError\<close>.
\<close>

fun main_loop :: "ccxt \<Rightarrow> event list \<Rightarrow> session \<Rightarrow> exn option \<times> session" where
  "main_loop lib [] s = (Some EOFError, s)"
| "main_loop lib (ev # evs) s =
     (case action lib ev s of
        (Some x, s') \<Rightarrow> (Some x, s')
      | (None, s') \<Rightarrow> (case ev of Quit \<Rightarrow> (None, s') | _ \<Rightarrow> main_loop lib evs s'))"

record main_input =
  exchange_attempts :: "string prompt list"
  api_key_answer :: "string prompt"
  secret_answer :: "string prompt"
  events :: "event list"
  show_traceback :: "bool prompt"

text \<open>The body of the \<^verbatim>\<open>try\<close> of \<^verbatim>\<open>main\<close>.\<close>

definition try_main :: "ccxt \<Rightarrow> main_input \<Rightarrow> session \<Rightarrow> exn option \<times> session" where
  "try_main lib inp tester =
     (case select_and_setup lib (exchange_attempts inp) (api_key_answer inp) (secret_answer inp)
             tester of
        (Some x, s) \<Rightarrow> (Some x, s)
      | (None, s) \<Rightarrow> main_loop lib (events inp) s)"

text \<open>
  The handlers of \<^verbatim>\<open>main\<close>: \<^verbatim>\<open>except KeyboardInterrupt\<close>, then \<^verbatim>\<open>except Exception\<close> with its
  own prompt; any other exception, and one raised inside a handler, leaves \<^verbatim>\<open>main\<close>.
\<close>

definition handle_main :: "main_input \<Rightarrow> exn option \<times> session \<Rightarrow> exn option \<times> session" where
  "handle_main inp r =
     (case r of
        (None, s) \<Rightarrow> (None, s)
      | (Some x, s) \<Rightarrow>
          if x = KeyboardInterrupt then
            (None, print ''[yellow]Operation cancelled by user[/yellow]'' s)
          else if is_Exception x then
            (let s1 = print (''[red]Unexpected error: '' @ str_exn x @ ''[/red]'') s
             in case show_traceback inp of
                  Raised y \<Rightarrow> (Some y, s1)
                | Answer yes \<Rightarrow>
                    (None, if yes then print ''Traceback (most recent call last):'' s1 else s1))
          else (Some x, s))"

text \<open>
  \<^verbatim>\<open>main\<close>: the \<^verbatim>\<open>finally\<close> clause runs \<^verbatim>\<open>cleanup\<close> whatever the outcome. The result is the
  exception that leaves \<^verbatim>\<open>main\<close>, if any, and the session at the end.
\<close>

definition main :: "ccxt \<Rightarrow> main_input \<Rightarrow> exn option \<times> session" where
  "main lib inp =
     (case handle_main inp (try_main lib inp init) of
        (r, s) \<Rightarrow> (r, cleanup s))"

section \<open>Notions of the statements, and example data\<close>

text \<open>
  The two capability values that the classification tells apart from all others: the
  boolean true, and the token \<^verbatim>\<open>emulated\<close>.
\<close>

definition is_supported :: "pydict \<Rightarrow> string \<Rightarrow> bool" where
  "is_supported h endpoint = (map_of h endpoint = Some (PBool True))"

definition is_emulated :: "pydict \<Rightarrow> string \<Rightarrow> bool" where
  "is_emulated h endpoint = (map_of h endpoint = Some (PStr ''emulated''))"

text \<open>The three buckets of a report, each over all categories.\<close>

definition in_supported :: "report \<Rightarrow> string \<Rightarrow> bool" where
  "in_supported rep endpoint = (endpoint \<in> set (values_of (supported rep)))"

definition in_emulated :: "report \<Rightarrow> string \<Rightarrow> bool" where
  "in_emulated rep endpoint = (endpoint \<in> set (values_of (emulated rep)))"

definition in_not_supported :: "report \<Rightarrow> string \<Rightarrow> bool" where
  "in_not_supported rep endpoint = (endpoint \<in> set (values_of (not_supported rep)))"

text \<open>The report that \<^verbatim>\<open>check_supported_endpoints\<close> builds, if it builds one.\<close>

definition report_of :: "exn option \<times> report option \<times> session \<Rightarrow> report option" where
  "report_of r = fst (snd r)"

text \<open>The percentages of the summary table, in tenths of a percent.\<close>

definition percentages :: "report \<Rightarrow> nat list" where
  "percentages rep = map (\<lambda>(label, n, p). p) (summary_table rep)"

text \<open>The credentials of the tester and of a client object read as absent or empty.\<close>

definition field_cleared :: "string option \<Rightarrow> bool" where
  "field_cleared v = (v = None \<or> v = Some [])"

definition attr_cleared :: "pyval option \<Rightarrow> bool" where
  "attr_cleared v = (v = None \<or> v = Some PNone)"

definition client_cleared :: "client \<Rightarrow> bool" where
  "client_cleared c = (attr_cleared (apiKey c) \<and> attr_cleared (secret c))"

text \<open>
  Every client object of the store, except the one the tester holds, has its credentials
  cleared.
\<close>

definition others_cleared :: "session \<Rightarrow> bool" where
  "others_cleared s =
     (\<forall>a < length (heap s). exchange_instance s \<noteq> Some a \<longrightarrow> client_cleared (heap s ! a))"

text \<open>Two sessions that differ at most in \<^verbatim>\<open>_api_key\<close> and \<^verbatim>\<open>_secret\<close>.\<close>

definition with_credentials :: "string option \<Rightarrow> string option \<Rightarrow> session \<Rightarrow> session" where
  "with_credentials k x s = s\<lparr>p_api_key := k, p_secret := x\<rparr>"

text \<open>The positional parameters.\<close>

definition positional :: "string \<Rightarrow> bool" where
  "positional param = (param = ''symbol'' \<or> param = ''limit'' \<or> param = ''since'')"

text \<open>
  The parameters that \<^verbatim>\<open>test_endpoint\<close> prompts for, the value it gives to each, and the
  arguments it collects for a method.
\<close>

definition prompted_params :: "endpoint_method \<Rightarrow> string list" where
  "prompted_params m = remove1 ''self'' (parameters m)"

definition prompted_value :: "test_input \<Rightarrow> client \<Rightarrow> string \<Rightarrow> pyval" where
  "prompted_value inp c param = param_value c (clock_now inp) param (entered inp param)"

definition arguments_of :: "test_input \<Rightarrow> client \<Rightarrow> endpoint_method \<Rightarrow> pyval list \<times> pydict" where
  "arguments_of inp c m = collect_params (prompted_value inp c) (prompted_params m) ([], [])"

text \<open>
  Example data: a method with the signature of \<^verbatim>\<open>fetch_trades\<close>, in three variants of what
  the call does, a client, a library and the surroundings of a save.
\<close>

definition fetch_trades :: "exn + pyval \<Rightarrow> endpoint_method" where
  "fetch_trades outcome =
     \<lparr>parameters = [''symbol'', ''since'', ''limit'', ''params''],
      invoke = (\<lambda>args kwargs. outcome)\<rparr>"

definition example_client :: "pydict \<Rightarrow> exn + pyval \<Rightarrow> client" where
  "example_client h outcome =
     \<lparr>has = Some h, version = Some (PStr ''0''), rateLimit = Some (PInt 1000),
      apiKey = Some (PStr ''key''), secret = Some (PStr ''hidden''),
      markets = Some [''BTC/USD''], load_markets = Some (Inr [''BTC/USD'']),
      dir_names = [''fetch_trades''],
      getattr_method = (\<lambda>name. if name = ''fetch_trades'' then Some (fetch_trades outcome) else None)\<rparr>"

definition example_has :: pydict where
  "example_has =
     [(''fetchTicker'', PBool True), (''fetchOHLCV'', PStr ''emulated''),
      (''createOrder'', PBool False), (''fetchTrades'', PNone)]"

definition example_session :: "pydict \<Rightarrow> exn + pyval \<Rightarrow> session" where
  "example_session h outcome =
     \<lparr>exchange = Some ''kraken'', exchange_instance = Some 0, p_api_key = Some ''key'',
      p_secret = Some ''hidden'', heap = [example_client h outcome], console = [], files = []\<rparr>"

definition example_env :: env where
  "example_env = \<lparr>strftime_now = ''20240101_120000'', isoformat_now = ''2024-01-01T12:00:00'',
                  io_error = None\<rparr>"

definition example_entered :: "string \<Rightarrow> string" where
  "example_entered param =
     (if param = ''limit'' then ''5'' else if param = ''since'' then ''1000'' else [])"

definition example_test_input :: "test_input" where
  "example_test_input =
     \<lparr>entered = example_entered, clock_now = 1700000000,
      save_answer = Answer False, traceback_answer = Answer False, save_env = example_env\<rparr>"

text \<open>
  A library with three exchanges: the constructor of the first succeeds, that of the second
  raises, and the third gives a client whose \<^verbatim>\<open>load_markets\<close> raises. \<open>outcome\<close> is what
  the method of its clients does.
\<close>

definition example_ccxt :: "exn + pyval \<Rightarrow> ccxt" where
  "example_ccxt outcome =
     \<lparr>exchanges = [''kraken'', ''broken'', ''offline''],
      exchange_class = (\<lambda>name.
        if name = ''kraken'' then Some (\<lambda>config. Inr (example_client example_has outcome))
        else if name = ''broken'' then Some (\<lambda>config. Inl (Error ''bad credentials''))
        else if name = ''offline'' then
          Some (\<lambda>config. Inr ((example_client example_has outcome)
                                \<lparr>markets := None,
                                 load_markets := Some (Inl (Error ''network unreachable''))\<rparr>))
        else None)\<rparr>"

definition example_main_input :: "string \<Rightarrow> event list \<Rightarrow> main_input" where
  "example_main_input name evs =
     \<lparr>exchange_attempts = [Answer name], api_key_answer = Answer ''key'',
      secret_answer = Answer ''hidden'', events = evs, show_traceback = Answer False\<rparr>"

section \<open>Facts about the classification\<close>

text \<open>
  The loops of \<^verbatim>\<open>check_supported_endpoints\<close> are three filters of each category: what is
  true, what is the token, and everything else.
\<close>

lemma bucket_endpoints_eq:
  "bucket_endpoints h eps (sl, el, nl) =
     (sl @ filter (is_supported h) eps,
      el @ filter (is_emulated h) eps,
      nl @ filter (\<lambda>e. \<not> is_supported h e \<and> \<not> is_emulated h e) eps)"
  by (induction eps arbitrary: sl el nl)
     (auto simp: is_supported_def is_emulated_def split: option.splits)

lemma bucket_categories_eq:
  "bucket_categories h cats (sd, ed, nd) =
     (sd @ map (\<lambda>(cat, eps). (cat, filter (is_supported h) eps)) cats,
      ed @ map (\<lambda>(cat, eps). (cat, filter (is_emulated h) eps)) cats,
      nd @ map (\<lambda>(cat, eps). (cat, filter (\<lambda>e. \<not> is_supported h e \<and> \<not> is_emulated h e) eps)) cats)"
  by (induction cats arbitrary: sd ed nd) (auto simp: bucket_endpoints_eq)

lemma values_of_filter:
  "values_of (map (\<lambda>(cat, eps). (cat, filter P eps)) cats) = filter P (concat (map snd cats))"
  by (induction cats) (auto simp: values_of_def)

lemma total_of_length: "total_of d = length (values_of d)"
  by (induction d) (auto simp: total_of_def values_of_def)

lemma length_checked: "length checked_endpoints = 37"
  by (simp add: checked_endpoints_def categories_def)

lemma distinct_checked: "distinct checked_endpoints"
  by (simp add: checked_endpoints_def categories_def)

lemma check_report:
  assumes "the_instance s = Some c" and "getattr_has c = h" and "h \<noteq> []"
  shows "\<exists>rep. report_of (check_supported_endpoints e answer s) = Some rep \<and>
     values_of (supported rep) = filter (is_supported h) checked_endpoints \<and>
     values_of (emulated rep) = filter (is_emulated h) checked_endpoints \<and>
     values_of (not_supported rep) =
       filter (\<lambda>e. \<not> is_supported h e \<and> \<not> is_emulated h e) checked_endpoints \<and>
     total_checked rep =
       total_of (supported rep) + total_of (emulated rep) + total_of (not_supported rep) \<and>
     summary_table rep =
       summary_rows (total_of (supported rep)) (total_of (emulated rep))
         (total_of (not_supported rep))"
  using assms
  by (cases answer)
     (simp_all add: check_supported_endpoints_def report_of_def bucket_categories_eq
        values_of_filter checked_endpoints_def Let_def)

lemma filter_partition_length:
  "length (filter P xs) + length (filter Q xs) + length (filter (\<lambda>e. \<not> P e \<and> \<not> Q e) xs)
     = length xs" if "\<And>e. \<not> (P e \<and> Q e)"
  using that by (induction xs) auto

lemma pct_tenths_bound:
  assumes "0 < d"
  shows "2 * d * pct_tenths n d \<le> 2000 * n + d \<and> 2000 * n \<le> 2 * d * pct_tenths n d + d"
proof -
  define q where "q = (1000 * n) div d"
  define r where "r = (1000 * n) mod d"
  have eq: "1000 * n = d * q + r" by (simp add: q_def r_def)
  have r: "r < d" using assms by (simp add: r_def)
  have p: "pct_tenths n d = (if 2 * r < d then q else if d < 2 * r then q + 1 else if even q then q else q + 1)"
    by (simp add: pct_tenths_def q_def r_def Let_def)
  show ?thesis
  proof (cases "pct_tenths n d = q")
    case True
    then have "2 * r \<le> d" using p by (auto split: if_splits)
    with True eq show ?thesis by (simp add: algebra_simps)
  next
    case False
    then have 1: "pct_tenths n d = q + 1" and 2: "d \<le> 2 * r" using p by (auto split: if_splits)
    with eq r show ?thesis by (simp add: algebra_simps)
  qed
qed

lemma pct_sum:
  assumes "0 < a + b + c"
  shows "999 \<le> pct_tenths a (a + b + c) + pct_tenths b (a + b + c) + pct_tenths c (a + b + c)
       \<and> pct_tenths a (a + b + c) + pct_tenths b (a + b + c) + pct_tenths c (a + b + c) \<le> 1001"
proof -
  define d where "d = a + b + c"
  define S where "S = pct_tenths a d + pct_tenths b d + pct_tenths c d"
  have d: "0 < d" using assms by (simp add: d_def)
  note A = pct_tenths_bound[OF d, of a] and B = pct_tenths_bound[OF d, of b]
    and C = pct_tenths_bound[OF d, of c]
  have "2 * d * S \<le> 2000 * (a + b + c) + 3 * d"
    using A B C by (simp add: S_def algebra_simps)
  then have up: "d * (2 * S) \<le> d * 2003" by (simp add: d_def algebra_simps)
  have "2000 * (a + b + c) \<le> 2 * d * S + 3 * d"
    using A B C by (simp add: S_def algebra_simps)
  then have lo: "d * 1997 \<le> d * (2 * S)" by (simp add: d_def algebra_simps)
  from up d have "2 * S \<le> 2003" by simp
  moreover from lo d have "1997 \<le> 2 * S" by simp
  ultimately show ?thesis unfolding S_def d_def by arith
qed

lemma example_instance:
  "the_instance (example_session h outcome) = Some (example_client h outcome)"
  by (simp add: the_instance_def example_session_def deref_def)

lemma example_getattr_has: "getattr_has (example_client h outcome) = h"
  by (simp add: getattr_has_def example_client_def)

lemma count_list_filter:
  "count_list (filter P xs) e = (if P e then count_list xs e else 0)"
  by (induction xs) auto

lemma count_list_distinct: "distinct xs \<Longrightarrow> e \<in> set xs \<Longrightarrow> count_list xs e = 1"
  by (induction xs) (auto simp: count_list_0_iff)

lemma partition_is: "\<not> (is_supported h e \<and> is_emulated h e)"
  by (auto simp: is_supported_def is_emulated_def)

lemma dict_set_fresh: "k \<notin> fst ` set d \<Longrightarrow> dict_set d k v = d @ [(k, v)]"
  by (induction d) auto

lemma map_of_dict_set: "map_of (dict_set d k v) = (map_of d)(k \<mapsto> v)"
  by (induction d) (auto simp: fun_eq_iff)

lemma collect_params_Cons:
  "collect_params vf (p # ps) (args, kwargs) =
     collect_params vf ps
       (if positional p then (args @ [vf p], kwargs) else (args, dict_set kwargs p (vf p)))"
  by (simp add: positional_def)

lemma collect_params_args:
  "fst (collect_params vf ps (args, kwargs)) = args @ map vf (filter positional ps)"
  by (induction ps arbitrary: args kwargs)
     (simp_all add: collect_params_Cons del: collect_params.simps(2))

lemma collect_params_map_of:
  "map_of (snd (collect_params vf ps (args, kwargs))) =
     (\<lambda>p. if p \<in> set ps \<and> \<not> positional p then Some (vf p) else map_of kwargs p)"
  by (induction ps arbitrary: args kwargs)
     (auto simp: collect_params_Cons map_of_dict_set fun_eq_iff
           simp del: collect_params.simps(2))

lemma collect_params_kwargs:
  "distinct ps \<Longrightarrow> set ps \<inter> fst ` set kwargs = {} \<Longrightarrow>
   snd (collect_params vf ps (args, kwargs)) =
     kwargs @ map (\<lambda>p. (p, vf p)) (filter (\<lambda>p. \<not> positional p) ps)"
proof (induction ps arbitrary: args kwargs)
  case Nil
  then show ?case by simp
next
  case (Cons p ps)
  show ?case
  proof (cases "positional p")
    case True
    from Cons.prems have "distinct ps" and "set ps \<inter> fst ` set kwargs = {}" by auto
    from Cons.IH[OF this, of "args @ [vf p]"] True show ?thesis
      by (simp add: collect_params_Cons del: collect_params.simps(2))
  next
    case False
    from Cons.prems have fresh: "p \<notin> fst ` set kwargs" by auto
    from Cons.prems have "distinct ps" and "set ps \<inter> fst ` set (kwargs @ [(p, vf p)]) = {}"
      by auto
    from Cons.IH[OF this, of args] False fresh show ?thesis
      by (simp add: collect_params_Cons dict_set_fresh del: collect_params.simps(2))
  qed
qed

lemma test_endpoint_unfold:
  assumes "the_instance s = Some c" and "getattr_method c endpoint = Some m"
  shows "test_endpoint inp endpoint s =
     except_Exception inp endpoint
       (try_call inp endpoint (fst (arguments_of inp c m)) (snd (arguments_of inp c m))
          (invoke m (fst (arguments_of inp c m)) (snd (arguments_of inp c m)))
          (print (''[bold cyan]Testing endpoint: '' @ endpoint @ ''[/bold cyan]'') s))"
proof -
  have eq: "(\<lambda>param. param_value c (clock_now inp) param (entered inp param))
              = prompted_value inp c"
    by (simp add: prompted_value_def fun_eq_iff)
  show ?thesis
    using assms
    by (simp add: test_endpoint_def arguments_of_def eq prompted_params_def Let_def
          split: prod.splits)
qed

lemma example_method:
  "getattr_method (example_client h outcome) ''fetch_trades'' = Some (fetch_trades outcome)"
  by (simp add: example_client_def)

lemma example_values:
  "prompted_value example_test_input (example_client h outcome) ''symbol'' = PStr ''BTC/USD''"
  "prompted_value example_test_input (example_client h outcome) ''since'' = PInt 1000"
  "prompted_value example_test_input (example_client h outcome) ''limit'' = PInt 5"
  "prompted_value example_test_input (example_client h outcome) ''params'' = PStr []"
proof -
  have 1: "py_int (strip ''1000'') = Some 1000" by code_simp
  have 2: "py_int (strip ''5'') = Some 5" by code_simp
  have 3: "lower (strip ''1000'') \<noteq> ''now''" by code_simp
  have 4: "lower [] \<noteq> ''none'' \<and> lower [] \<noteq> ''true'' \<and> lower [] \<noteq> ''false''"
    by (simp add: lower_def)
  show "prompted_value example_test_input (example_client h outcome) ''symbol'' = PStr ''BTC/USD''"
    by (simp add: prompted_value_def param_value_def example_test_input_def example_entered_def
          example_client_def Prompt_ask_def)
  show "prompted_value example_test_input (example_client h outcome) ''since'' = PInt 1000"
    by (simp add: prompted_value_def param_value_def example_test_input_def example_entered_def
          Prompt_ask_def 1 3)
  show "prompted_value example_test_input (example_client h outcome) ''limit'' = PInt 5"
    by (simp add: prompted_value_def param_value_def example_test_input_def example_entered_def
          Prompt_ask_def 2)
  show "prompted_value example_test_input (example_client h outcome) ''params'' = PStr []"
    using 4
    by (simp add: prompted_value_def param_value_def example_test_input_def example_entered_def
          Prompt_ask_def)
qed

lemma example_params:
  "prompted_params (fetch_trades outcome) = [''symbol'', ''since'', ''limit'', ''params'']"
  by (simp add: prompted_params_def fetch_trades_def)

lemma is_digit_not_space: "is_digit c \<Longrightarrow> \<not> is_space c"
  by (auto simp: is_digit_def is_space_def Let_def)

lemma is_int_space_is_space: "is_int_space c \<Longrightarrow> is_space c"
  by (auto simp: is_int_space_def is_space_def Let_def)

lemma dropWhile_weaker:
  assumes "\<And>x. P x \<Longrightarrow> Q x" and "dropWhile P s = t" and "t \<noteq> []" and "\<not> Q (hd t)"
  shows "dropWhile Q s = t"
proof -
  have "s = takeWhile P s @ t" using assms(2) by (metis takeWhile_dropWhile_id)
  then have "dropWhile Q s = dropWhile Q (takeWhile P s @ t)" by simp
  also have "\<dots> = dropWhile Q t"
    by (rule dropWhile_append2) (auto dest: set_takeWhileD intro: assms(1))
  also have "\<dots> = t" using assms(3,4) by (cases t) auto
  finally show ?thesis .
qed

lemma trim_weaker:
  assumes imp: "\<And>x. P x \<Longrightarrow> Q x"
    and t: "rev (dropWhile P (rev (dropWhile P s))) = t"
    and ne: "t \<noteq> []" and h: "\<not> Q (hd t)" and l: "\<not> Q (last t)"
  shows "rev (dropWhile Q (rev (dropWhile Q s))) = t"
proof -
  define u where "u = dropWhile P s"
  from t have rt: "dropWhile P (rev u) = rev t" unfolding u_def by (metis rev_rev_ident)
  have "rev u = takeWhile P (rev u) @ rev t" using rt by (metis takeWhile_dropWhile_id)
  then have "rev (rev u) = rev (takeWhile P (rev u) @ rev t)" by simp
  then have u: "u = t @ rev (takeWhile P (rev u))" by simp
  from u ne have une: "u \<noteq> []" by auto
  from u ne have hu: "hd u = hd t" by (metis hd_append2)
  have 1: "dropWhile Q s = u"
    by (rule dropWhile_weaker[of P]) (use imp une hu h in \<open>simp_all add: u_def\<close>)
  have 2: "dropWhile Q (rev u) = rev t"
    by (rule dropWhile_weaker[of P]) (use imp rt ne l in \<open>simp_all add: hd_rev\<close>)
  show ?thesis by (simp add: 1 2)
qed

lemma trim_id:
  assumes "s \<noteq> []" and "\<not> P (hd s)" and "\<not> P (last s)"
  shows "rev (dropWhile P (rev (dropWhile P s))) = s"
proof -
  from assms(1,2) have 1: "dropWhile P s = s" by (cases s) auto
  from assms(1,3) have 2: "dropWhile P (rev s) = rev s"
    by (cases "rev s") (auto simp: last_rev[symmetric] simp del: last_rev)
  show ?thesis by (simp add: 1 2)
qed

lemma strip_no_space:
  assumes "s \<noteq> []" and "\<not> is_space (hd s)" and "\<not> is_space (last s)"
  shows "strip s = s"
  unfolding strip_def using assms by (rule trim_id)

lemma digit_value_char_of: "k < 10 \<Longrightarrow> digit_value (char_of (48 + k)) = k"
  by (simp add: digit_value_def)

lemma is_digit_char_of: "k < 10 \<Longrightarrow> is_digit (char_of (48 + k :: nat))"
  by (simp add: is_digit_def Let_def)

lemma digits_from_all_digits:
  "\<forall>c \<in> set cs. is_digit c \<Longrightarrow>
   digits_from a cs = Some (foldl (\<lambda>a c. 10 * a + digit_value c) a cs)"
  by (induction a cs rule: digits_from.induct) auto

lemma digits_from_last:
  "digits_from a cs = Some n \<Longrightarrow> cs \<noteq> [] \<Longrightarrow> is_digit (last cs)"
  by (induction a cs rule: digits_from.induct) (auto split: if_splits)

lemma digits_last:
  assumes "digits s = Some n"
  shows "s \<noteq> [] \<and> is_digit (hd s) \<and> is_digit (last s)"
proof -
  from assms obtain c cs where s: "s = c # cs" and c: "is_digit c"
    and d: "digits_from (digit_value c) cs = Some n"
    by (cases s) (auto simp: digits_def split: if_splits)
  show ?thesis
  proof (cases cs)
    case Nil
    with s c show ?thesis by simp
  next
    case (Cons d ds)
    with digits_from_last[OF d] s c show ?thesis by simp
  qed
qed

lemma str_nat_digits: "\<forall>c \<in> set (str_nat n). is_digit c"
proof (induction n rule: str_nat.induct)
  case (1 n)
  show ?case
  proof (cases "n < 10")
    case True
    then show ?thesis by (subst str_nat.simps) (simp add: is_digit_char_of)
  next
    case False
    with 1 show ?thesis by (subst str_nat.simps) (auto simp: is_digit_char_of)
  qed
qed

lemma str_nat_nonempty: "str_nat n \<noteq> []"
  by (subst str_nat.simps) simp

lemma foldl_str_nat:
  "foldl (\<lambda>a c. 10 * a + digit_value c) 0 (str_nat n) = n"
proof (induction n rule: str_nat.induct)
  case (1 n)
  show ?case
  proof (cases "n < 10")
    case True
    then show ?thesis by (subst str_nat.simps) (simp add: digit_value_char_of)
  next
    case False
    with 1 show ?thesis by (subst str_nat.simps) (simp add: digit_value_char_of)
  qed
qed

lemma digits_all_digits:
  assumes "s \<noteq> []" and "\<forall>c \<in> set s. is_digit c"
  shows "digits s =
    (if length s \<le> max_str_digits then Some (foldl (\<lambda>a c. 10 * a + digit_value c) 0 s)
     else None)"
proof -
  from assms obtain c cs where s: "s = c # cs" by (cases s) auto
  with assms(2) have c: "is_digit c" and cs: "\<forall>c \<in> set cs. is_digit c" by auto
  from cs have f: "filter is_digit cs = cs" by (simp add: filter_id_conv)
  show ?thesis using c by (simp add: digits_def s digits_from_all_digits[OF cs] f)
qed

lemma str_nat_trimmed:
  "str_nat n \<noteq> [] \<and> \<not> is_space (hd (str_nat n)) \<and> \<not> is_space (last (str_nat n))"
  using str_nat_nonempty[of n] str_nat_digits[of n]
  by (auto intro!: is_digit_not_space)

lemma py_int_str_nat:
  "py_int (str_nat n) = (if length (str_nat n) \<le> max_str_digits then Some (int n) else None)"
proof -
  let ?s = "str_nat n"
  have ne: "?s \<noteq> []" by (rule str_nat_nonempty)
  have dg: "\<forall>c \<in> set ?s. is_digit c" by (rule str_nat_digits)
  from str_nat_trimmed[of n] have "\<not> is_int_space (hd ?s)" "\<not> is_int_space (last ?s)"
    by (auto dest: is_int_space_is_space)
  with ne have st: "rev (dropWhile is_int_space (rev (dropWhile is_int_space ?s))) = ?s"
    by (rule trim_id)
  from ne obtain c cs where s: "?s = c # cs" by (cases ?s) auto
  with dg have c: "is_digit c" by auto
  then have sg: "c \<noteq> CHR ''-''" "c \<noteq> CHR ''+''" by (auto simp: is_digit_def)
  have "digits ?s = (if length ?s \<le> max_str_digits then Some n else None)"
    using digits_all_digits[OF ne dg] by (simp add: foldl_str_nat)
  then have d: "digits (c # cs) = (if length (c # cs) \<le> max_str_digits then Some n else None)"
    by (simp only: s)
  show ?thesis
    unfolding py_int_def st unfolding s using sg d by simp
qed

lemma set_strip: "set (strip s) \<subseteq> set s"
proof
  fix x assume "x \<in> set (strip s)"
  then have "x \<in> set (dropWhile is_space (rev (dropWhile is_space s)))"
    by (simp add: strip_def)
  then have "x \<in> set (rev (dropWhile is_space s))" by (rule set_dropWhileD)
  then have "x \<in> set (dropWhile is_space s)" by simp
  then show "x \<in> set s" by (rule set_dropWhileD)
qed

lemma py_int_no_digit:
  assumes "\<forall>c \<in> set s. \<not> is_digit c"
  shows "py_int s = None"
proof (cases "rev (dropWhile is_int_space (rev (dropWhile is_int_space s)))")
  case Nil
  show ?thesis unfolding py_int_def Nil by simp
next
  case (Cons c cs)
  have "set (rev (dropWhile is_int_space (rev (dropWhile is_int_space s)))) \<subseteq> set s"
  proof
    fix x assume "x \<in> set (rev (dropWhile is_int_space (rev (dropWhile is_int_space s))))"
    then have "x \<in> set (dropWhile is_int_space (rev (dropWhile is_int_space s)))" by simp
    then have "x \<in> set (rev (dropWhile is_int_space s))" by (rule set_dropWhileD)
    then have "x \<in> set (dropWhile is_int_space s)" by simp
    then show "x \<in> set s" by (rule set_dropWhileD)
  qed
  with Cons assms have nd: "\<not> is_digit c" "\<forall>d \<in> set cs. \<not> is_digit d" by auto
  then have 1: "digits (c # cs) = None" by (simp add: digits_def)
  from nd have 2: "digits cs = None" by (cases cs) (auto simp: digits_def)
  from 1 2 show ?thesis unfolding py_int_def Cons by simp
qed

lemma py_int_core:
  assumes "py_int s = Some n"
  shows "rev (dropWhile is_int_space (rev (dropWhile is_int_space s))) \<noteq> [] \<and>
     \<not> is_space (hd (rev (dropWhile is_int_space (rev (dropWhile is_int_space s))))) \<and>
     \<not> is_space (last (rev (dropWhile is_int_space (rev (dropWhile is_int_space s)))))"
proof -
  define t where "t = rev (dropWhile is_int_space (rev (dropWhile is_int_space s)))"
  have pi: "py_int s =
     (case t of [] \<Rightarrow> None
      | c # cs \<Rightarrow>
          if c = CHR ''-'' then map_option (\<lambda>n. - int n) (digits cs)
          else if c = CHR ''+'' then map_option int (digits cs)
          else map_option int (digits (c # cs)))"
    by (simp only: py_int_def t_def)
  from assms pi obtain c cs where t: "t = c # cs"
    by (cases t) simp_all
  have sg: "\<not> is_space CHR ''-''" "\<not> is_space CHR ''+''" by (simp_all add: is_space_def)
  consider (minus) "c = CHR ''-''" "\<exists>k. digits cs = Some k"
    | (plus) "c = CHR ''+''" "\<exists>k. digits cs = Some k"
    | (plain) "\<exists>k. digits (c # cs) = Some k"
    using assms unfolding pi t
    by (auto split: if_splits)
  then have "\<not> is_space (hd t) \<and> \<not> is_space (last t)"
  proof cases
    case minus
    then obtain k where "digits cs = Some k" by blast
    from digits_last[OF this] have "cs \<noteq> []" and "\<not> is_space (last cs)"
      by (simp_all add: is_digit_not_space)
    with minus(1) sg show ?thesis by (simp add: t)
  next
    case plus
    then obtain k where "digits cs = Some k" by blast
    from digits_last[OF this] have "cs \<noteq> []" and "\<not> is_space (last cs)"
      by (simp_all add: is_digit_not_space)
    with plus(1) sg show ?thesis by (simp add: t)
  next
    case plain
    then obtain k where "digits (c # cs) = Some k" by blast
    from digits_last[OF this] show ?thesis
      unfolding t by (simp add: is_digit_not_space del: last.simps)
  qed
  with t show ?thesis unfolding t_def by simp
qed

lemma py_int_strip:
  assumes "py_int s = Some n"
  shows "py_int (strip s) = Some n"
proof -
  define t where "t = rev (dropWhile is_int_space (rev (dropWhile is_int_space s)))"
  from py_int_core[OF assms] have ne: "t \<noteq> []" and h: "\<not> is_space (hd t)"
    and l: "\<not> is_space (last t)"
    by (simp_all add: t_def)
  have "rev (dropWhile is_space (rev (dropWhile is_space s))) = t"
    by (rule trim_weaker[of is_int_space]) (use ne h l in \<open>simp_all add: is_int_space_is_space t_def\<close>)
  then have st: "strip s = t" by (simp add: strip_def)
  from h l have "\<not> is_int_space (hd t)" "\<not> is_int_space (last t)"
    by (auto dest: is_int_space_is_space)
  with ne have tt: "rev (dropWhile is_int_space (rev (dropWhile is_int_space t))) = t"
    by (rule trim_id)
  have "py_int t = py_int s"
    unfolding py_int_def tt unfolding t_def ..
  with assms st show ?thesis by simp
qed

lemma py_int_empty: "py_int [] = None"
  by (simp add: py_int_def)






lemma print_fields:
  "exchange (print line s) = exchange s"
  "exchange_instance (print line s) = exchange_instance s"
  "p_api_key (print line s) = p_api_key s"
  "p_secret (print line s) = p_secret s"
  "heap (print line s) = heap s"
  "files (print line s) = files s"
  "console (print line s) = console s @ [line]"
  by (simp_all add: print_def)


lemma example_select: "select_exchange (example_ccxt outcome) [Answer ''kraken''] = Inr ''kraken''"
proof -
  have "strip (lower (Prompt_ask ''indodax'' ''kraken'')) = ''kraken''" by code_simp
  then show ?thesis by (simp add: example_ccxt_def)
qed

lemma example_setup:
  "select_and_setup (example_ccxt outcome) [Answer ''kraken''] (Answer ''key'') (Answer ''hidden'')
     init =
   (None, print ''[green]Successfully connected to kraken[/green]'' (example_session example_has outcome))"
proof -
  have k: "Prompt_ask [] ''key'' = ''key''" "Prompt_ask [] ''hidden'' = ''hidden''" by code_simp+
  have "select_and_setup (example_ccxt outcome) [Answer ''kraken''] (Answer ''key'')
          (Answer ''hidden'') init
      = setup_exchange (example_ccxt outcome) ''kraken'' ''key'' ''hidden'' init"
    by (simp add: select_and_setup_def example_select k del: select_exchange.simps)
  also have "\<dots> = (None, print ''[green]Successfully connected to kraken[/green]''
                        (example_session example_has outcome))"
    by (simp add: setup_exchange_def try_setup_def example_ccxt_def init_def
          example_session_def example_client_def print_def Let_def config_of_def)
  finally show ?thesis .
qed

lemma save_response_keeps:
  "heap (save_response_to_file e endpoint r ri s) = heap s \<and>
   exchange_instance (save_response_to_file e endpoint r ri s) = exchange_instance s"
  by (simp add: save_response_to_file_def print_fields Let_def split: option.splits)

lemma save_capability_keeps:
  "heap (save_capability_info_to_file e h sd ed nd s) = heap s \<and>
   exchange_instance (save_capability_info_to_file e h sd ed nd s) = exchange_instance s"
  by (simp add: save_capability_info_to_file_def print_fields Let_def split: option.splits)

lemma save_endpoints_keeps:
  "heap (save_endpoints_info_to_file e eps s) = heap s \<and>
   exchange_instance (save_endpoints_info_to_file e eps s) = exchange_instance s"
  by (simp add: save_endpoints_info_to_file_def print_fields Let_def split: option.splits)

lemma display_endpoints_keeps:
  "heap (snd (display_endpoints e answer s)) = heap s \<and>
   exchange_instance (snd (display_endpoints e answer s)) = exchange_instance s"
  by (simp add: display_endpoints_def save_endpoints_keeps Let_def split: prompt.splits)

lemma check_supported_endpoints_keeps:
  "heap (snd (snd (check_supported_endpoints e answer s))) = heap s \<and>
   exchange_instance (snd (snd (check_supported_endpoints e answer s))) = exchange_instance s"
  by (simp add: check_supported_endpoints_def save_capability_keeps print_fields Let_def
        split: prompt.splits option.splits prod.splits)

lemma try_call_keeps:
  "heap (snd (try_call inp endpoint args kwargs outcome s)) = heap s \<and>
   exchange_instance (snd (try_call inp endpoint args kwargs outcome s)) = exchange_instance s"
  by (simp add: try_call_def save_response_keeps print_fields Let_def
        split: prompt.splits sum.splits)

lemma except_Exception_keeps:
  "heap (snd (except_Exception inp endpoint r)) = heap (snd r) \<and>
   exchange_instance (snd (except_Exception inp endpoint r)) = exchange_instance (snd r)"
  by (simp add: except_Exception_def print_fields Let_def
        split: prompt.splits option.splits prod.splits)

lemma test_endpoint_keeps:
  "heap (snd (test_endpoint inp endpoint s)) = heap s \<and>
   exchange_instance (snd (test_endpoint inp endpoint s)) = exchange_instance s"
  by (simp add: test_endpoint_def except_Exception_keeps try_call_keeps print_fields Let_def
        split: option.splits prod.splits)

lemma others_cleared_keeps:
  "heap s' = heap s \<Longrightarrow> exchange_instance s' = exchange_instance s \<Longrightarrow>
   others_cleared s \<Longrightarrow> others_cleared s'"
  by (simp add: others_cleared_def)

lemma cleanup_fields:
  "field_cleared (p_api_key (cleanup s))" "field_cleared (p_secret (cleanup s))"
  "exchange_instance (cleanup s) = None" "exchange (cleanup s) = None"
  "console (cleanup s) = console s" "files (cleanup s) = files s"
  "length (heap (cleanup s)) = length (heap s)"
  by (auto simp: cleanup_def clear_credentials_def clear_field_def field_cleared_def Let_def
        split: option.splits)

lemma clear_client_cleared: "client_cleared (clear_client c)"
  by (simp add: client_cleared_def clear_client_def attr_cleared_def)

lemma cleanup_instance:
  assumes "exchange_instance s = Some a" and "deref (heap s) a = Some c"
  shows "deref (heap (cleanup s)) a = Some (clear_client c)"
  using assms
  by (auto simp: cleanup_def clear_credentials_def deref_def Let_def split: if_splits)

lemma cleanup_all_cleared:
  assumes "others_cleared s"
  shows "\<forall>c \<in> set (heap (cleanup s)). client_cleared c"
proof -
  have "client_cleared (heap (cleanup s) ! a)" if a: "a < length (heap (cleanup s))" for a
  proof -
    from a have al: "a < length (heap s)" by (simp add: cleanup_fields)
    show ?thesis
    proof (cases "exchange_instance s = Some a")
      case True
      with al have "deref (heap s) a = Some (heap s ! a)" by (simp add: deref_def)
      from cleanup_instance[OF True this] al show ?thesis
        by (simp add: deref_def cleanup_fields clear_client_cleared)
    next
      case False
      with assms al have c: "client_cleared (heap s ! a)" by (simp add: others_cleared_def)
      have "heap (cleanup s) ! a = heap s ! a"
        using False al
        by (auto simp: cleanup_def clear_credentials_def deref_def Let_def
              split: option.splits)
      with c show ?thesis by simp
    qed
  qed
  then show ?thesis by (auto simp: in_set_conv_nth)
qed

lemma all_cleared_others:
  "\<forall>c \<in> set (heap s). client_cleared c \<Longrightarrow> others_cleared s"
  by (simp add: others_cleared_def)

lemma try_setup_others:
  assumes "\<forall>c \<in> set (heap s). client_cleared c"
  shows "others_cleared (snd (try_setup lib exchange_name api_key secret_key s))"
  using assms
  by (auto simp: try_setup_def others_cleared_def print_fields Let_def nth_append
        split: option.splits sum.splits)

lemma setup_exchange_others:
  assumes "\<forall>c \<in> set (heap s). client_cleared c"
  shows "others_cleared (snd (setup_exchange lib exchange_name api_key secret_key s))"
proof -
  obtain r s' where t: "try_setup lib exchange_name api_key secret_key s = (r, s')"
    by (cases "try_setup lib exchange_name api_key secret_key s")
  with try_setup_others[OF assms, of lib exchange_name api_key secret_key]
  have o: "others_cleared s'" by simp
  then have "others_cleared (print line s')" for line
    by (rule others_cleared_keeps[rotated 2]) (simp_all add: print_fields)
  with o show ?thesis
    by (simp add: setup_exchange_def t split: option.splits)
qed

lemma select_and_setup_others:
  assumes "\<forall>c \<in> set (heap s). client_cleared c"
  shows "others_cleared (snd (select_and_setup lib attempts ka sa s))"
  using assms setup_exchange_others[OF assms] all_cleared_others[OF assms]
  by (simp add: select_and_setup_def split: sum.splits prompt.splits)

lemma action_others:
  assumes "others_cleared s"
  shows "others_cleared (snd (action lib ev s))"
proof (cases ev)
  case (View e answer)
  with assms display_endpoints_keeps[of e answer s] show ?thesis
    by (auto intro: others_cleared_keeps)
next
  case (Check e answer)
  with assms check_supported_endpoints_keeps[of e answer s] show ?thesis
    by (auto intro: others_cleared_keeps split: prod.splits)
next
  case (Test selected inp)
  have "others_cleared (print line s)" for line
    using assms by (rule others_cleared_keeps[rotated 2]) (simp_all add: print_fields)
  moreover have "others_cleared (snd (test_endpoint inp endpoint s))" for endpoint
    using assms test_endpoint_keeps[of inp endpoint s] by (auto intro: others_cleared_keeps)
  ultimately show ?thesis
    using assms Test by (simp split: prompt.splits option.splits)
next
  case (Change attempts ka sa)
  with select_and_setup_others[OF cleanup_all_cleared[OF assms]] show ?thesis by simp
next
  case Quit
  with assms show ?thesis
    by (auto intro: others_cleared_keeps simp: print_fields)
next
  case (Menu_raised x)
  with assms show ?thesis by simp
qed

lemma main_loop_others:
  "others_cleared s \<Longrightarrow> others_cleared (snd (main_loop lib evs s))"
proof (induction evs arbitrary: s)
  case Nil
  then show ?case by simp
next
  case (Cons ev evs)
  obtain r s' where a: "action lib ev s = (r, s')" by (cases "action lib ev s")
  with action_others[OF Cons.prems, of lib ev] have o: "others_cleared s'" by simp
  show ?case
  proof (cases r)
    case None
    with a o Cons.IH[OF o] show ?thesis by (cases ev) simp_all
  next
    case (Some x)
    with a o show ?thesis by simp
  qed
qed

lemma handle_main_keeps:
  "heap (snd (handle_main inp r)) = heap (snd r) \<and>
   exchange_instance (snd (handle_main inp r)) = exchange_instance (snd r)"
  by (simp add: handle_main_def print_fields Let_def
        split: prompt.splits option.splits prod.splits)

lemma try_main_others: "others_cleared (snd (try_main lib inp init))"
proof -
  have i: "\<forall>c \<in> set (heap init). client_cleared c" by (simp add: init_def)
  obtain r s where t: "select_and_setup lib (exchange_attempts inp) (api_key_answer inp)
      (secret_answer inp) init = (r, s)"
    by (cases "select_and_setup lib (exchange_attempts inp) (api_key_answer inp)
      (secret_answer inp) init")
  with select_and_setup_others[OF i, of lib "exchange_attempts inp" "api_key_answer inp"
      "secret_answer inp"]
  have o: "others_cleared s" by simp
  with main_loop_others[OF o, of lib "events inp"] show ?thesis
    by (simp add: try_main_def t split: option.splits)
qed

lemma main_unfold:
  "main lib inp = (fst (handle_main inp (try_main lib inp init)),
                   cleanup (snd (handle_main inp (try_main lib inp init))))"
  by (simp add: main_def split: prod.splits)


















lemma with_credentials_twice:
  "with_credentials k' x' (with_credentials k x s) = with_credentials k' x' s"
  by (simp add: with_credentials_def)



section \<open>The claims\<close>

text \<open>
  C1, as amended. For a session with a client whose capability map is not empty, and for
  every method name of the fixed checked set, \<^verbatim>\<open>check_supported_endpoints\<close> builds its report
  and puts the name among the unsupported ones if it is absent from the map, among the
  supported ones if its value is the boolean true, among the emulated ones if its value is
  the token \<^verbatim>\<open>emulated\<close>, and among the unsupported ones for any other value.
\<close>

theorem check_supported_endpoints_classifies:
  assumes "the_instance s = Some c" and "getattr_has c \<noteq> []"
    and "endpoint \<in> set checked_endpoints"
  shows "\<exists>rep. report_of (check_supported_endpoints e answer s) = Some rep \<and>
     (map_of (getattr_has c) endpoint = None \<longrightarrow> in_not_supported rep endpoint) \<and>
     (map_of (getattr_has c) endpoint = Some (PBool True) \<longrightarrow> in_supported rep endpoint) \<and>
     (map_of (getattr_has c) endpoint = Some (PStr ''emulated'') \<longrightarrow> in_emulated rep endpoint) \<and>
     (\<forall>v. map_of (getattr_has c) endpoint = Some v \<and> v \<noteq> PBool True \<and> v \<noteq> PStr ''emulated''
          \<longrightarrow> in_not_supported rep endpoint)"
proof -
  from check_report[OF assms(1) refl assms(2), of e answer]
  obtain rep where rep: "report_of (check_supported_endpoints e answer s) = Some rep"
    and s: "values_of (supported rep) = filter (is_supported (getattr_has c)) checked_endpoints"
    and m: "values_of (emulated rep) = filter (is_emulated (getattr_has c)) checked_endpoints"
    and n: "values_of (not_supported rep) =
       filter (\<lambda>e. \<not> is_supported (getattr_has c) e \<and> \<not> is_emulated (getattr_has c) e)
         checked_endpoints"
    by blast
  show ?thesis
    using rep assms(3)
    by (auto simp: in_supported_def in_emulated_def in_not_supported_def s m n
          is_supported_def is_emulated_def)
qed

text \<open>
  The theorem at the example client: an absent name, a true one, an emulated one and a
  false one.
\<close>

theorem check_supported_endpoints_classifies_witness:
  "\<exists>rep. report_of (check_supported_endpoints example_env (Answer False)
              (example_session example_has (Inr PNone))) = Some rep \<and>
     in_not_supported rep ''fetchStatus'' \<and> in_supported rep ''fetchTicker'' \<and>
     in_emulated rep ''fetchOHLCV'' \<and> in_not_supported rep ''createOrder''"
proof -
  have inst: "the_instance (example_session example_has (Inr PNone))
                = Some (example_client example_has (Inr PNone))"
    by (rule example_instance)
  have ne: "getattr_has (example_client example_has (Inr PNone)) \<noteq> []"
    by (simp add: example_getattr_has example_has_def)
  have mem: "''fetchStatus'' \<in> set checked_endpoints" "''fetchTicker'' \<in> set checked_endpoints"
    "''fetchOHLCV'' \<in> set checked_endpoints" "''createOrder'' \<in> set checked_endpoints"
    by (simp_all add: checked_endpoints_def categories_def)
  show ?thesis
    using check_supported_endpoints_classifies[OF inst ne mem(1), of example_env "Answer False"]
      check_supported_endpoints_classifies[OF inst ne mem(2), of example_env "Answer False"]
      check_supported_endpoints_classifies[OF inst ne mem(3), of example_env "Answer False"]
      check_supported_endpoints_classifies[OF inst ne mem(4), of example_env "Answer False"]
    by (auto simp: example_getattr_has example_has_def)
qed

text \<open>
  C1 as stated speaks of every capability map. On the empty map the function prints that
  the exchange gives no capability information and returns before it classifies: the
  absent name \<^verbatim>\<open>fetchTicker\<close> is put in no bucket, as there is no report.
\<close>

theorem check_supported_endpoints_empty_map:
  "the_instance (example_session [] (Inr PNone)) = Some (example_client [] (Inr PNone)) \<and>
   map_of (getattr_has (example_client [] (Inr PNone))) ''fetchTicker'' = None \<and>
   ''fetchTicker'' \<in> set checked_endpoints \<and>
   report_of (check_supported_endpoints example_env (Answer False)
                (example_session [] (Inr PNone))) = None"
  by (simp add: example_instance example_getattr_has checked_endpoints_def categories_def
        check_supported_endpoints_def report_of_def)

text \<open>
  C6, as amended. For a session with a client whose capability map is not empty, every
  checked method name occurs exactly once in the three buckets together, so the total
  equals the sum of the three counts and the size of the fixed checked set (37); the
  summary written by \<^verbatim>\<open>_save_capability_info_to_file\<close> has that total, the summary table
  has the three counts, and its three percentages (in tenths of a percent) add up to
  between 99.9 and 100.1.
\<close>

theorem check_supported_endpoints_totals:
  assumes "the_instance s = Some c" and "getattr_has c \<noteq> []"
  shows "\<exists>rep. report_of (check_supported_endpoints e answer s) = Some rep \<and>
     (\<forall>endpoint \<in> set checked_endpoints.
        count_list (values_of (supported rep) @ values_of (emulated rep)
                      @ values_of (not_supported rep)) endpoint = 1) \<and>
     total_checked rep =
       total_of (supported rep) + total_of (emulated rep) + total_of (not_supported rep) \<and>
     total_checked rep = length checked_endpoints \<and>
     map_of (capability_summary (supported rep) (emulated rep) (not_supported rep))
       ''total_checked'' = Some (PInt (int (total_checked rep))) \<and>
     map (\<lambda>(label, n, p). n) (summary_table rep) =
       [total_of (supported rep), total_of (emulated rep), total_of (not_supported rep)] \<and>
     length (percentages rep) = 3 \<and>
     999 \<le> sum_list (percentages rep) \<and> sum_list (percentages rep) \<le> 1001"
proof -
  let ?h = "getattr_has c"
  from check_report[OF assms(1) refl assms(2), of e answer]
  obtain rep where rep: "report_of (check_supported_endpoints e answer s) = Some rep"
    and s: "values_of (supported rep) = filter (is_supported ?h) checked_endpoints"
    and m: "values_of (emulated rep) = filter (is_emulated ?h) checked_endpoints"
    and n: "values_of (not_supported rep) =
       filter (\<lambda>e. \<not> is_supported ?h e \<and> \<not> is_emulated ?h e) checked_endpoints"
    and t: "total_checked rep =
       total_of (supported rep) + total_of (emulated rep) + total_of (not_supported rep)"
    and r: "summary_table rep =
       summary_rows (total_of (supported rep)) (total_of (emulated rep))
         (total_of (not_supported rep))"
    by blast
  have one: "\<forall>endpoint \<in> set checked_endpoints.
        count_list (values_of (supported rep) @ values_of (emulated rep)
                      @ values_of (not_supported rep)) endpoint = 1"
    using partition_is[of ?h]
    by (auto simp: s m n count_list_filter count_list_distinct[OF distinct_checked])
  have len: "total_checked rep = length checked_endpoints"
    unfolding t total_of_length s m n
    by (rule filter_partition_length) (rule partition_is)
  then have pos: "0 < total_of (supported rep) + total_of (emulated rep) + total_of (not_supported rep)"
    using t by (simp add: length_checked)
  have summ: "map_of (capability_summary (supported rep) (emulated rep) (not_supported rep))
       ''total_checked'' = Some (PInt (int (total_checked rep)))"
    by (simp add: capability_summary_def Let_def t)
  have counts: "map (\<lambda>(label, n, p). n) (summary_table rep) =
       [total_of (supported rep), total_of (emulated rep), total_of (not_supported rep)]"
    using pos by (simp add: r summary_rows_def Let_def)
  have pl: "length (percentages rep) = 3"
    using pos by (simp add: percentages_def r summary_rows_def Let_def)
  have ps: "999 \<le> sum_list (percentages rep) \<and> sum_list (percentages rep) \<le> 1001"
    using pos pct_sum[OF pos] by (simp add: percentages_def r summary_rows_def Let_def)
  from ps have lo: "999 \<le> sum_list (percentages rep)"
    and up: "sum_list (percentages rep) \<le> 1001" by simp_all
  show ?thesis
    by (intro exI[of _ rep] conjI) (fact rep one t len summ counts pl lo up)+
qed

text \<open>
  The theorem at the example client.
\<close>

theorem check_supported_endpoints_totals_witness:
  "\<exists>rep. report_of (check_supported_endpoints example_env (Answer True)
              (example_session example_has (Inr PNone))) = Some rep \<and>
     total_checked rep = 37 \<and>
     total_checked rep =
       total_of (supported rep) + total_of (emulated rep) + total_of (not_supported rep) \<and>
     count_list (values_of (supported rep) @ values_of (emulated rep)
                   @ values_of (not_supported rep)) ''fetchTicker'' = 1 \<and>
     999 \<le> sum_list (percentages rep) \<and> sum_list (percentages rep) \<le> 1001"
proof -
  have inst: "the_instance (example_session example_has (Inr PNone))
                = Some (example_client example_has (Inr PNone))"
    by (rule example_instance)
  have ne: "getattr_has (example_client example_has (Inr PNone)) \<noteq> []"
    by (simp add: example_getattr_has example_has_def)
  have mem: "''fetchTicker'' \<in> set checked_endpoints"
    by (simp add: checked_endpoints_def categories_def)
  show ?thesis
    using check_supported_endpoints_totals[OF inst ne, of example_env "Answer True"] mem
    by (auto simp: length_checked)
qed

text \<open>
  C6 as stated speaks of every capability map. On the empty map there is no report, hence
  no bucket that holds a checked name and no summary, and nothing is written even when
  the operator asks to save.
\<close>

theorem check_supported_endpoints_no_summary:
  "the_instance (example_session [] (Inr PNone)) = Some (example_client [] (Inr PNone)) \<and>
   getattr_has (example_client [] (Inr PNone)) = [] \<and>
   report_of (check_supported_endpoints example_env (Answer True)
                (example_session [] (Inr PNone))) = None \<and>
   files (snd (snd (check_supported_endpoints example_env (Answer True)
                (example_session [] (Inr PNone))))) = []"
proof -
  have f: "files (example_session [] (Inr PNone)) = []"
    by (simp add: example_session_def)
  show ?thesis
    by (simp add: example_instance example_getattr_has f
          check_supported_endpoints_def report_of_def print_def)
qed

text \<open>
  C4, as amended. For a client that has the method, \<^verbatim>\<open>test_endpoint\<close> calls it with, as
  positional arguments, the values of the parameters named \<^verbatim>\<open>symbol\<close>, \<^verbatim>\<open>limit\<close> and
  \<^verbatim>\<open>since\<close> in the order in which the signature declares them, and with every other
  parameter as a keyword argument under its name (in the order of the signature, when no
  name occurs twice).
\<close>

theorem arguments_placed_in_declared_order:
  assumes "the_instance s = Some c" and "getattr_method c endpoint = Some m"
  shows "\<exists>args kwargs.
     test_endpoint inp endpoint s =
       except_Exception inp endpoint
         (try_call inp endpoint args kwargs (invoke m args kwargs)
            (print (''[bold cyan]Testing endpoint: '' @ endpoint @ ''[/bold cyan]'') s)) \<and>
     args = map (prompted_value inp c) (filter positional (prompted_params m)) \<and>
     map_of kwargs =
       (\<lambda>p. if p \<in> set (prompted_params m) \<and> \<not> positional p then Some (prompted_value inp c p)
            else None) \<and>
     (distinct (prompted_params m) \<longrightarrow>
        kwargs = map (\<lambda>p. (p, prompted_value inp c p))
                   (filter (\<lambda>p. \<not> positional p) (prompted_params m)))"
proof -
  let ?a = "arguments_of inp c m"
  have 1: "fst ?a = map (prompted_value inp c) (filter positional (prompted_params m))"
    by (simp add: arguments_of_def collect_params_args)
  have 2: "map_of (snd ?a) =
       (\<lambda>p. if p \<in> set (prompted_params m) \<and> \<not> positional p then Some (prompted_value inp c p)
            else None)"
    by (simp add: arguments_of_def collect_params_map_of fun_eq_iff)
  have 3: "distinct (prompted_params m) \<longrightarrow>
        snd ?a = map (\<lambda>p. (p, prompted_value inp c p))
                   (filter (\<lambda>p. \<not> positional p) (prompted_params m))"
    by (simp add: arguments_of_def collect_params_kwargs)
  show ?thesis
    by (intro exI[of _ "fst ?a"] exI[of _ "snd ?a"] conjI)
       (fact test_endpoint_unfold[OF assms] 1 2 3)+
qed

text \<open>
  The theorem at the example client: \<^verbatim>\<open>fetch_trades(symbol, since, limit, params)\<close>, where the
  operator enters nothing for the symbol, 1000 for \<^verbatim>\<open>since\<close> and 5 for \<^verbatim>\<open>limit\<close>.
\<close>

theorem arguments_placed_in_declared_order_witness:
  "\<exists>args kwargs.
     test_endpoint example_test_input ''fetch_trades'' (example_session example_has (Inr PNone)) =
       except_Exception example_test_input ''fetch_trades''
         (try_call example_test_input ''fetch_trades'' args kwargs
            (invoke (fetch_trades (Inr PNone)) args kwargs)
            (print (''[bold cyan]Testing endpoint: '' @ ''fetch_trades'' @ ''[/bold cyan]'')
               (example_session example_has (Inr PNone)))) \<and>
     args = [PStr ''BTC/USD'', PInt 1000, PInt 5] \<and>
     kwargs = [(''params'', PStr [])]"
proof -
  have d: "distinct (prompted_params (fetch_trades (Inr PNone)))"
    by (simp add: example_params)
  show ?thesis
    using arguments_placed_in_declared_order[OF example_instance[of example_has "Inr PNone"]
        example_method[of example_has "Inr PNone"], where inp = example_test_input] d
    by (simp add: example_params example_values positional_def)
qed

text \<open>
  C4 as stated fixes the order symbol, limit, since. For the signature
  \<^verbatim>\<open>(symbol, since, limit, params)\<close> the loop appends in the order of the signature: the
  second positional argument is the value of \<^verbatim>\<open>since\<close> (1000) and the third that of
  \<^verbatim>\<open>limit\<close> (5).
\<close>

theorem positional_arguments_follow_the_signature:
  "parameters (fetch_trades (Inr PNone)) = [''symbol'', ''since'', ''limit'', ''params''] \<and>
   collect_params
     (\<lambda>param. param_value (example_client example_has (Inr PNone)) (clock_now example_test_input)
                param (entered example_test_input param))
     (remove1 ''self'' (parameters (fetch_trades (Inr PNone)))) ([], [])
     = ([PStr ''BTC/USD'', PInt 1000, PInt 5], [(''params'', PStr [])]) \<and>
   param_value (example_client example_has (Inr PNone)) (clock_now example_test_input)
     ''limit'' (entered example_test_input ''limit'') = PInt 5 \<and>
   param_value (example_client example_has (Inr PNone)) (clock_now example_test_input)
     ''since'' (entered example_test_input ''since'') = PInt 1000"
proof -
  have eq: "(\<lambda>param. param_value (example_client example_has (Inr PNone))
                (clock_now example_test_input) param (entered example_test_input param))
              = prompted_value example_test_input (example_client example_has (Inr PNone))"
    by (simp add: prompted_value_def fun_eq_iff)
  have p: "remove1 ''self'' (parameters (fetch_trades (Inr PNone)))
             = [''symbol'', ''since'', ''limit'', ''params'']"
    by (simp add: fetch_trades_def)
  have v: "param_value (example_client example_has (Inr PNone)) (clock_now example_test_input)
     ''limit'' (entered example_test_input ''limit'') = PInt 5"
    "param_value (example_client example_has (Inr PNone)) (clock_now example_test_input)
     ''since'' (entered example_test_input ''since'') = PInt 1000"
    using example_values(2,3)[of example_has "Inr PNone"] by (simp_all add: prompted_value_def)
  show ?thesis
    unfolding eq p
    by (simp add: fetch_trades_def example_values v)
qed

text \<open>
  C7, as amended. The value of the parameter \<^verbatim>\<open>limit\<close> is the integer that \<^verbatim>\<open>int\<close> reads from the
  text that the prompt returns when it reads one, and that text itself when \<^verbatim>\<open>int\<close> raises,
  so the coercion raises nothing. The text that the prompt returns is \<^verbatim>\<open>10\<close> for an empty
  line, which gives the integer 10, and else the line without the white space around it.
  Hence a line that \<^verbatim>\<open>int\<close> reads as an integer gives that integer; the decimal text of a
  natural number gives that number up to the 4300 digits that \<^verbatim>\<open>int\<close> accepts and is passed
  as a text beyond them; a line without a digit is passed as a text, without the white
  space around it; and a line that \<^verbatim>\<open>int\<close> does not read, and that has no white space at
  either end, is passed unchanged.
\<close>

theorem limit_is_coerced_or_passed_through:
  "(py_int (Prompt_ask ''10'' typed) = Some n \<longrightarrow>
      param_value c clock ''limit'' typed = PInt n) \<and>
   (py_int (Prompt_ask ''10'' typed) = None \<longrightarrow>
      param_value c clock ''limit'' typed = PStr (Prompt_ask ''10'' typed)) \<and>
   Prompt_ask ''10'' typed = (if typed = [] then ''10'' else strip typed) \<and>
   param_value c clock ''limit'' [] = PInt 10 \<and>
   (py_int typed = Some n \<longrightarrow> param_value c clock ''limit'' typed = PInt n) \<and>
   (length (str_nat k) \<le> max_str_digits \<longrightarrow>
      param_value c clock ''limit'' (str_nat k) = PInt (int k)) \<and>
   (max_str_digits < length (str_nat k) \<longrightarrow>
      param_value c clock ''limit'' (str_nat k) = PStr (str_nat k)) \<and>
   (typed \<noteq> [] \<and> (\<forall>ch \<in> set typed. \<not> is_digit ch) \<longrightarrow>
      param_value c clock ''limit'' typed = PStr (strip typed)) \<and>
   (typed \<noteq> [] \<and> \<not> is_space (hd typed) \<and> \<not> is_space (last typed) \<and> py_int typed = None \<longrightarrow>
      param_value c clock ''limit'' typed = PStr typed)"
proof -
  have ten: "py_int ''10'' = Some 10" by code_simp
  have 0: "param_value c clock ''limit'' [] = PInt 10"
    by (simp add: param_value_def Prompt_ask_def ten)
  have 1: "param_value c clock ''limit'' typed = PInt n" if "py_int typed = Some n"
  proof -
    from that have "typed \<noteq> []" by (auto simp: py_int_empty)
    with py_int_strip[OF that] show ?thesis by (simp add: param_value_def Prompt_ask_def)
  qed
  have st: "strip (str_nat k) = str_nat k"
    using str_nat_trimmed[of k] by (simp add: strip_no_space)
  have 2: "param_value c clock ''limit'' (str_nat k) = PInt (int k)"
    if "length (str_nat k) \<le> max_str_digits"
    using that by (simp add: param_value_def Prompt_ask_def str_nat_nonempty st py_int_str_nat)
  have 3: "param_value c clock ''limit'' (str_nat k) = PStr (str_nat k)"
    if "max_str_digits < length (str_nat k)"
    using that by (simp add: param_value_def Prompt_ask_def str_nat_nonempty st py_int_str_nat)
  have 4: "param_value c clock ''limit'' typed = PStr (strip typed)"
    if "typed \<noteq> []" and "\<forall>ch \<in> set typed. \<not> is_digit ch"
  proof -
    from that(2) set_strip[of typed] have "\<forall>ch \<in> set (strip typed). \<not> is_digit ch" by auto
    then have "py_int (strip typed) = None" by (rule py_int_no_digit)
    with that(1) show ?thesis by (simp add: param_value_def Prompt_ask_def)
  qed
  have 5: "param_value c clock ''limit'' typed = PStr typed"
    if "typed \<noteq> []" and "\<not> is_space (hd typed)" and "\<not> is_space (last typed)"
      and "py_int typed = None"
    using that by (simp add: param_value_def Prompt_ask_def strip_no_space)
  have 6: "py_int (Prompt_ask ''10'' typed) = Some n \<longrightarrow>
      param_value c clock ''limit'' typed = PInt n"
    by (simp add: param_value_def)
  have 7: "py_int (Prompt_ask ''10'' typed) = None \<longrightarrow>
      param_value c clock ''limit'' typed = PStr (Prompt_ask ''10'' typed)"
    by (simp add: param_value_def)
  have 8: "Prompt_ask ''10'' typed = (if typed = [] then ''10'' else strip typed)"
    by (simp add: Prompt_ask_def)
  from 0 1 2 3 4 5 6 7 8 show ?thesis by blast
qed

text \<open>
  The theorem at five lines: letters, digits, a signed number with an underscore and
  white space around it, a decimal fraction, and letters with white space around and
  between them.
\<close>

theorem limit_is_coerced_or_passed_through_witness:
  "param_value (example_client example_has (Inr PNone)) 0 ''limit'' ''abc'' = PStr ''abc'' \<and>
   param_value (example_client example_has (Inr PNone)) 0 ''limit'' ''25'' = PInt 25 \<and>
   param_value (example_client example_has (Inr PNone)) 0 ''limit'' '' -1_000 '' = PInt (- 1000) \<and>
   param_value (example_client example_has (Inr PNone)) 0 ''limit'' ''1.5'' = PStr ''1.5'' \<and>
   param_value (example_client example_has (Inr PNone)) 0 ''limit'' '' x y '' = PStr ''x y''"
proof -
  have a: "py_int ''abc'' = None \<and> \<not> is_space (hd ''abc'') \<and> \<not> is_space (last ''abc'')"
    by code_simp
  have b: "py_int ''25'' = Some 25" by code_simp
  have c: "py_int '' -1_000 '' = Some (- 1000)" by code_simp
  have d: "py_int ''1.5'' = None \<and> \<not> is_space (hd ''1.5'') \<and> \<not> is_space (last ''1.5'')"
    by code_simp
  have e: "(\<forall>ch \<in> set '' x y ''. \<not> is_digit ch) \<and> strip '' x y '' = ''x y''" by code_simp
  show ?thesis
    using limit_is_coerced_or_passed_through[of "''abc''" 0 "example_client example_has (Inr PNone)" 0 0]
      limit_is_coerced_or_passed_through[of "''25''" 25 "example_client example_has (Inr PNone)" 0 0]
      limit_is_coerced_or_passed_through[of "'' -1_000 ''" "- 1000" "example_client example_has (Inr PNone)" 0 0]
      limit_is_coerced_or_passed_through[of "''1.5''" 0 "example_client example_has (Inr PNone)" 0 0]
      limit_is_coerced_or_passed_through[of "'' x y ''" 0 "example_client example_has (Inr PNone)" 0 0]
      a b c d e
    by simp
qed

text \<open>
  C7 as stated has every non-numeric line passed through unchanged. The prompt removes
  the white space around what was entered before the program sees it: the line
  \<^verbatim>\<open> abc \<close>, which \<^verbatim>\<open>int\<close> does not read, is passed as \<^verbatim>\<open>abc\<close>, a line of three spaces as the
  empty string, and the empty line, which \<^verbatim>\<open>int\<close> does not read either, gives the integer
  10 of the default.
\<close>

theorem limit_loses_its_white_space:
  "py_int '' abc '' = None \<and>
   param_value (example_client example_has (Inr PNone)) 0 ''limit'' '' abc '' = PStr ''abc'' \<and>
   param_value (example_client example_has (Inr PNone)) 0 ''limit'' '' abc '' \<noteq> PStr '' abc '' \<and>
   py_int ''   '' = None \<and>
   param_value (example_client example_has (Inr PNone)) 0 ''limit'' ''   '' = PStr [] \<and>
   py_int [] = None \<and>
   param_value (example_client example_has (Inr PNone)) 0 ''limit'' [] = PInt 10"
proof -
  have a: "py_int '' abc '' = None" "strip '' abc '' = ''abc''" "py_int ''abc'' = None"
    by code_simp+
  have b: "py_int ''   '' = None" "strip ''   '' = []" by code_simp+
  have c: "py_int [] = None" "py_int ''10'' = Some 10" by code_simp+
  show ?thesis
    by (simp add: param_value_def Prompt_ask_def a b c)
qed

text \<open>
  C10, as amended. For an endpoint name absent from the capability map of the client,
  \<^verbatim>\<open>_get_endpoint_support_status\<close> gives the marker of an unknown status, which is not the
  marker of an unsupported endpoint. \<^verbatim>\<open>check_supported_endpoints\<close> puts the same name among
  the unsupported ones when it is one of the checked names and the map is not empty; it
  puts a name outside the checked set in none of its buckets, and on an empty map it
  builds no report at all.
\<close>

theorem unknown_glyph_for_absent_endpoint:
  assumes "the_instance s = Some c" and "map_of (getattr_has c) endpoint = None"
  shows "get_endpoint_support_status s endpoint = ''[dim]?[/dim]'' \<and>
     get_endpoint_support_status s endpoint \<noteq> ''[red]U+2717[/red]'' \<and>
     (endpoint \<in> set checked_endpoints \<and> getattr_has c \<noteq> [] \<longrightarrow>
        (\<exists>rep. report_of (check_supported_endpoints e answer s) = Some rep \<and>
               in_not_supported rep endpoint)) \<and>
     (endpoint \<notin> set checked_endpoints \<and> getattr_has c \<noteq> [] \<longrightarrow>
        (\<exists>rep. report_of (check_supported_endpoints e answer s) = Some rep \<and>
               \<not> in_not_supported rep endpoint \<and> \<not> in_supported rep endpoint \<and>
               \<not> in_emulated rep endpoint)) \<and>
     (getattr_has c = [] \<longrightarrow> report_of (check_supported_endpoints e answer s) = None)"
proof -
  have g: "get_endpoint_support_status s endpoint = ''[dim]?[/dim]''"
    using assms by (simp add: get_endpoint_support_status_def)
  have b: "\<exists>rep. report_of (check_supported_endpoints e answer s) = Some rep \<and>
               in_not_supported rep endpoint"
    if "endpoint \<in> set checked_endpoints" and "getattr_has c \<noteq> []"
  proof -
    from check_report[OF assms(1) refl that(2), of e answer]
    obtain rep where "report_of (check_supported_endpoints e answer s) = Some rep"
      and "values_of (not_supported rep) =
       filter (\<lambda>e. \<not> is_supported (getattr_has c) e \<and> \<not> is_emulated (getattr_has c) e)
         checked_endpoints"
      by blast
    then show ?thesis
      using that(1) assms(2)
      by (auto simp: in_not_supported_def is_supported_def is_emulated_def)
  qed
  have u: "\<exists>rep. report_of (check_supported_endpoints e answer s) = Some rep \<and>
               \<not> in_not_supported rep endpoint \<and> \<not> in_supported rep endpoint \<and>
               \<not> in_emulated rep endpoint"
    if "endpoint \<notin> set checked_endpoints" and "getattr_has c \<noteq> []"
  proof -
    from check_report[OF assms(1) refl that(2), of e answer]
    obtain rep where "report_of (check_supported_endpoints e answer s) = Some rep"
      and "values_of (supported rep) = filter (is_supported (getattr_has c)) checked_endpoints"
      and "values_of (emulated rep) = filter (is_emulated (getattr_has c)) checked_endpoints"
      and "values_of (not_supported rep) =
       filter (\<lambda>e. \<not> is_supported (getattr_has c) e \<and> \<not> is_emulated (getattr_has c) e)
         checked_endpoints"
      by blast
    then show ?thesis
      using that(1)
      by (auto simp: in_not_supported_def in_supported_def in_emulated_def)
  qed
  have n: "report_of (check_supported_endpoints e answer s) = None" if "getattr_has c = []"
    using that assms(1) by (simp add: check_supported_endpoints_def report_of_def)
  from g b u n show ?thesis by simp
qed

text \<open>
  The theorem at the example client, for the absent checked name \<^verbatim>\<open>fetchStatus\<close> and the
  absent unchecked name \<^verbatim>\<open>fetch_trades\<close>, and at a client with an empty map.
\<close>

theorem unknown_glyph_for_absent_endpoint_witness:
  "get_endpoint_support_status (example_session example_has (Inr PNone)) ''fetchStatus''
     = ''[dim]?[/dim]'' \<and>
   (\<exists>rep. report_of (check_supported_endpoints example_env (Answer False)
              (example_session example_has (Inr PNone))) = Some rep \<and>
          in_not_supported rep ''fetchStatus'') \<and>
   get_endpoint_support_status (example_session example_has (Inr PNone)) ''fetch_trades''
     = ''[dim]?[/dim]'' \<and>
   (\<exists>rep. report_of (check_supported_endpoints example_env (Answer False)
              (example_session example_has (Inr PNone))) = Some rep \<and>
          \<not> in_not_supported rep ''fetch_trades'') \<and>
   get_endpoint_support_status (example_session [] (Inr PNone)) ''fetchStatus''
     = ''[dim]?[/dim]'' \<and>
   report_of (check_supported_endpoints example_env (Answer False)
                (example_session [] (Inr PNone))) = None"
proof -
  have inst: "the_instance (example_session h (Inr PNone)) = Some (example_client h (Inr PNone))"
    for h by (rule example_instance)
  have absent:
    "map_of (getattr_has (example_client example_has (Inr PNone))) ''fetchStatus'' = None"
    "map_of (getattr_has (example_client example_has (Inr PNone))) ''fetch_trades'' = None"
    "map_of (getattr_has (example_client [] (Inr PNone))) ''fetchStatus'' = None"
    by (simp_all add: example_getattr_has example_has_def)
  have side: "''fetchStatus'' \<in> set checked_endpoints"
    "''fetch_trades'' \<notin> set checked_endpoints"
    "getattr_has (example_client example_has (Inr PNone)) \<noteq> []"
    "getattr_has (example_client [] (Inr PNone)) = []"
    by (simp_all add: example_getattr_has example_has_def checked_endpoints_def categories_def)
  show ?thesis
    using unknown_glyph_for_absent_endpoint[OF inst absent(1), of example_env "Answer False"]
      unknown_glyph_for_absent_endpoint[OF inst absent(2), of example_env "Answer False"]
      unknown_glyph_for_absent_endpoint[OF inst absent(3), of example_env "Answer False"]
      side
    by blast
qed

text \<open>
  C10 as stated has \<^verbatim>\<open>check_supported_endpoints\<close> put every absent name among the unsupported
  ones. The method name \<^verbatim>\<open>fetch_trades\<close>, as the selector lists it, is absent from the map
  and gets the glyph of an unknown status, but it is not one of the checked names and is
  not among the unsupported ones of the report; and on an empty map the checked name
  \<^verbatim>\<open>fetchTicker\<close> gets the same glyph while there is no report.
\<close>

theorem absent_endpoint_in_no_bucket:
  "map_of (getattr_has (example_client example_has (Inr PNone))) ''fetch_trades'' = None \<and>
   get_endpoint_support_status (example_session example_has (Inr PNone)) ''fetch_trades''
     = ''[dim]?[/dim]'' \<and>
   report_of (check_supported_endpoints example_env (Answer False)
                (example_session example_has (Inr PNone))) \<noteq> None \<and>
   ''fetch_trades'' \<notin> set (values_of (not_supported (the (report_of
       (check_supported_endpoints example_env (Answer False)
          (example_session example_has (Inr PNone))))))) \<and>
   map_of (getattr_has (example_client [] (Inr PNone))) ''fetchTicker'' = None \<and>
   get_endpoint_support_status (example_session [] (Inr PNone)) ''fetchTicker''
     = ''[dim]?[/dim]'' \<and>
   report_of (check_supported_endpoints example_env (Answer False)
                (example_session [] (Inr PNone))) = None"
proof -
  have ne: "example_has \<noteq> []" by (simp add: example_has_def)
  from check_report[OF example_instance[of example_has "Inr PNone"] example_getattr_has ne,
      of example_env "Answer False"]
  obtain rep where r: "report_of (check_supported_endpoints example_env (Answer False)
                (example_session example_has (Inr PNone))) = Some rep"
    and v: "values_of (not_supported rep) =
       filter (\<lambda>e. \<not> is_supported example_has e \<and> \<not> is_emulated example_has e) checked_endpoints"
    by blast
  have m: "''fetch_trades'' \<notin> set checked_endpoints"
    by (simp add: checked_endpoints_def categories_def)
  have 1: "map_of (getattr_has (example_client example_has (Inr PNone))) ''fetch_trades'' = None"
    by (simp add: example_getattr_has example_has_def)
  have 2: "get_endpoint_support_status (example_session example_has (Inr PNone)) ''fetch_trades''
     = ''[dim]?[/dim]''"
    using 1 by (simp add: get_endpoint_support_status_def example_instance)
  have 3: "''fetch_trades'' \<notin> set (values_of (not_supported (the (report_of
       (check_supported_endpoints example_env (Answer False)
          (example_session example_has (Inr PNone)))))))"
    using m by (simp add: r v)
  have 4: "map_of (getattr_has (example_client [] (Inr PNone))) ''fetchTicker'' = None"
    by (simp add: example_getattr_has)
  have 5: "get_endpoint_support_status (example_session [] (Inr PNone)) ''fetchTicker''
     = ''[dim]?[/dim]''"
    using 4 by (simp add: get_endpoint_support_status_def example_instance)
  have 6: "report_of (check_supported_endpoints example_env (Answer False)
                (example_session [] (Inr PNone))) = None"
    by (simp add: check_supported_endpoints_def report_of_def example_instance
          example_getattr_has)
  from 1 2 r 3 4 5 6 show ?thesis by simp
qed







text \<open>
  C5. After \<^verbatim>\<open>cleanup\<close>, from any state of the tester, the two credential fields of the
  tester are absent or empty, the tester holds no client and no exchange name, and the
  client object it held has both credential attributes absent or \<^verbatim>\<open>None\<close>. Whatever
  \<^verbatim>\<open>main\<close> is given, its last step is \<^verbatim>\<open>cleanup\<close>, applied to the state that the body and the
  handlers leave, whether the loop ended by action 5, by an interrupt, by an error or by an
  exception that leaves \<^verbatim>\<open>main\<close>; so at the end the credential fields are cleared and every
  client object that was created has its credentials cleared.
\<close>

theorem cleanup_clears_credentials:
  "field_cleared (p_api_key (cleanup s)) \<and> field_cleared (p_secret (cleanup s)) \<and>
   exchange_instance (cleanup s) = None \<and> exchange (cleanup s) = None \<and>
   (\<forall>a c. exchange_instance s = Some a \<and> deref (heap s) a = Some c \<longrightarrow>
      (\<exists>c'. deref (heap (cleanup s)) a = Some c' \<and>
            attr_cleared (apiKey c') \<and> attr_cleared (secret c'))) \<and>
   main lib inp = (fst (handle_main inp (try_main lib inp init)),
                   cleanup (snd (handle_main inp (try_main lib inp init)))) \<and>
   field_cleared (p_api_key (snd (main lib inp))) \<and>
   field_cleared (p_secret (snd (main lib inp))) \<and>
   exchange_instance (snd (main lib inp)) = None \<and>
   (\<forall>c \<in> set (heap (snd (main lib inp))). client_cleared c)"
proof -
  have 1: "\<forall>a c. exchange_instance s = Some a \<and> deref (heap s) a = Some c \<longrightarrow>
      (\<exists>c'. deref (heap (cleanup s)) a = Some c' \<and>
            attr_cleared (apiKey c') \<and> attr_cleared (secret c'))"
    using clear_client_cleared by (auto simp: cleanup_instance client_cleared_def)
  have "others_cleared (snd (handle_main inp (try_main lib inp init)))"
    using try_main_others[of lib inp] handle_main_keeps[of inp "try_main lib inp init"]
    by (auto intro: others_cleared_keeps)
  then have 2: "\<forall>c \<in> set (heap (snd (main lib inp))). client_cleared c"
    unfolding main_unfold snd_conv by (rule cleanup_all_cleared)
  have 3: "field_cleared (p_api_key (snd (main lib inp)))"
    "field_cleared (p_secret (snd (main lib inp)))"
    "exchange_instance (snd (main lib inp)) = None"
    unfolding main_unfold snd_conv by (rule cleanup_fields)+
  show ?thesis
    by (intro conjI) (fact cleanup_fields 1 main_unfold 2 3)+
qed

text \<open>
  The theorem at the example session, whose tester and client hold a key, and at a run of
  \<^verbatim>\<open>main\<close> that sets the example exchange up with credentials and leaves by action 5.
\<close>

theorem cleanup_clears_credentials_witness:
  "p_api_key (example_session example_has (Inr PNone)) = Some ''key'' \<and>
   apiKey (example_client example_has (Inr PNone)) = Some (PStr ''key'') \<and>
   field_cleared (p_api_key (cleanup (example_session example_has (Inr PNone)))) \<and>
   field_cleared (p_secret (cleanup (example_session example_has (Inr PNone)))) \<and>
   (\<exists>c'. deref (heap (cleanup (example_session example_has (Inr PNone)))) 0 = Some c' \<and>
         attr_cleared (apiKey c') \<and> attr_cleared (secret c')) \<and>
   field_cleared (p_api_key (snd (main (example_ccxt (Inr PNone))
                                   (example_main_input ''kraken'' [Quit])))) \<and>
   length (heap (snd (main (example_ccxt (Inr PNone))
                        (example_main_input ''kraken'' [Quit])))) = 1 \<and>
   client_cleared (hd (heap (snd (main (example_ccxt (Inr PNone))
                                    (example_main_input ''kraken'' [Quit])))))"
proof -
  let ?S = "example_session example_has (Inr PNone)"
  let ?lib = "example_ccxt (Inr PNone)"
  let ?inp = "example_main_input ''kraken'' [Quit]"
  note t = cleanup_clears_credentials[of ?S ?lib ?inp]
  have s: "exchange_instance ?S = Some 0 \<and>
     deref (heap ?S) 0 = Some (example_client example_has (Inr PNone))"
    by (simp add: example_session_def deref_def)
  have k: "p_api_key ?S = Some ''key''"
    "apiKey (example_client example_has (Inr PNone)) = Some (PStr ''key'')"
    by (simp_all add: example_session_def example_client_def)
  have e: "exchange_attempts ?inp = [Answer ''kraken'']" "api_key_answer ?inp = Answer ''key''"
    "secret_answer ?inp = Answer ''hidden''" "events ?inp = [Quit]"
    by (simp_all add: example_main_input_def)
  have m: "try_main ?lib ?inp init =
    (None, print ''[green]Goodbye![/green]''
             (print ''[green]Successfully connected to kraken[/green]'' ?S))"
    by (simp add: try_main_def e example_setup)
  have l: "length (heap (snd (main ?lib ?inp))) = 1"
    unfolding main_unfold snd_conv cleanup_fields m
    by (simp add: handle_main_def print_fields example_session_def)
  then obtain c where h: "heap (snd (main ?lib ?inp)) = [c]"
    by (cases "heap (snd (main ?lib ?inp))") simp_all
  with t have c: "client_cleared (hd (heap (snd (main ?lib ?inp))))" by simp
  from t s have x: "\<exists>c'. deref (heap (cleanup ?S)) 0 = Some c' \<and>
         attr_cleared (apiKey c') \<and> attr_cleared (secret c')"
    by blast
  from t have f: "field_cleared (p_api_key (cleanup ?S))" "field_cleared (p_secret (cleanup ?S))"
    "field_cleared (p_api_key (snd (main ?lib ?inp)))"
    by blast+
  show ?thesis
    by (intro conjI) (fact k f x l c)+
qed



end
